theory Spec2Isabelle
  imports Complex_Main "HOL-Library.AList"
begin

section \<open>MarketPlay: the fixed-price listing registry and the atomic settlement\<close>

text \<open>
  The development embeds two classes of the SDK:
  \<^item> \<open>FixedPriceMarketplace\<close> (the listing registry: \<open>listAsset\<close>, \<open>buyAsset\<close>,
    \<open>cancelListing\<close> and the queries), and
  \<^item> \<open>AtomicTransactionManager\<close> (\<open>marketplacePurchase\<close>, \<open>executeAtomicGroup\<close>),
  together with the helpers of \<open>AssetManager\<close> and \<open>PaymentManager\<close> they call
  (\<open>getAssetHolding\<close>, \<open>optIn\<close>, \<open>hasSufficientBalance\<close>).

  Conventions of the embedding.
  \<^item> A TypeScript \<open>number\<close> that holds an amount or a percentage is a \<open>number\<close>: a
    double, that is \<open>NaN\<close>, an infinity or a rational, with the arithmetic of
    JavaScript (every result rounded to the nearest double, ties to even). The two
    zeros of a double are one value. Asset ids and timestamps are integers.
  \<^item> An optional field \<open>x?: T\<close> is a \<open>T option\<close>; the truthiness tests of the
    source (\<open>if (s && ...)\<close>) are \<open>truthy_str\<close> and \<open>truthy_num\<close>.
  \<^item> \<open>throw new Error(...)\<close> is the left injection of a sum; each constructor of
    \<open>error\<close> is one throw site and \<open>message\<close> gives the text the source builds.
  \<^item> The JavaScript \<open>Map\<close> of listings is an association list with distinct keys in
    insertion order; \<open>Map.set\<close> is \<open>AList.update\<close> (an existing key keeps its
    position, a new key goes to the end) and \<open>Map.get\<close> is \<open>map_of\<close>.
  \<^item> The ledger client (algod and algosdk) is outside the repository. It is a record
    of functions over an abstract ledger state \<open>'w\<close>; a call that can change the
    ledger returns the new state. Every call that can throw may fail: the queries, the
    submission, the transaction builders, the grouping and the signing.
  \<^item> Each method runs to completion before the next one starts (the interleaving of
    two asynchronous calls at an \<open>await\<close> is not part of the model).
\<close>

subsection \<open>Numbers\<close>

datatype number = NaN | PosInf | NegInf | Fin rat

text \<open>
  Rounding to the nearest double. For a positive rational \<open>a\<close>, \<open>expo a\<close> is the
  exponent \<open>e\<close> with \<open>2^e \<le> a < 2^(e+1)\<close>; doubles near \<open>a\<close> are the multiples of
  \<open>quantum a\<close>, which is \<open>2^(e - 52)\<close> and never less than \<open>2^(-1074)\<close>; a result
  of \<open>2^1024\<close> or more is an infinity.
\<close>

fun ilog2 :: "nat \<Rightarrow> nat" where
  "ilog2 n = (if n < 2 then 0 else Suc (ilog2 (n div 2)))"

declare ilog2.simps [simp del]

definition expo :: "rat \<Rightarrow> int" where
  "expo a =
     (if 1 \<le> a then int (ilog2 (nat \<lfloor>a\<rfloor>))
      else (let n = nat \<lceil>1 / a\<rceil> in if n \<le> 1 then 0 else - int (Suc (ilog2 (n - 1)))))"

definition pow2 :: "int \<Rightarrow> rat" where
  "pow2 e = (if 0 \<le> e then 2 ^ nat e else 1 / 2 ^ nat (- e))"

definition round_even :: "rat \<Rightarrow> int" where
  "round_even z =
     (let n = \<lfloor>z\<rfloor>; d = z - of_int n
      in if d < 1 / 2 then n else if 1 / 2 < d then n + 1 else if even n then n else n + 1)"

definition quantum :: "rat \<Rightarrow> rat" where
  "quantum a = pow2 (max (expo a) (- 1022) - 52)"

definition nearest :: "rat \<Rightarrow> rat" where
  "nearest a = of_int (round_even (a / quantum a)) * quantum a"

definition fl :: "rat \<Rightarrow> number" where
  "fl x =
     (if x = 0 then Fin 0
      else if pow2 1024 \<le> nearest \<bar>x\<bar> then (if 0 < x then PosInf else NegInf)
      else Fin (if 0 < x then nearest \<bar>x\<bar> else - nearest \<bar>x\<bar>))"


fun is_pos :: "number \<Rightarrow> bool" where
  "is_pos PosInf = True"
| "is_pos (Fin a) = (0 < a)"
| "is_pos x = False"

text \<open>The operators \<open>*\<close>, \<open>+\<close>, \<open>/\<close> and \<open>Math.floor\<close>.\<close>

fun js_mul :: "number \<Rightarrow> number \<Rightarrow> number" where
  "js_mul (Fin a) (Fin b) = fl (a * b)"
| "js_mul NaN y = NaN"
| "js_mul x NaN = NaN"
| "js_mul x y =
     (if x = Fin 0 \<or> y = Fin 0 then NaN
      else if is_pos x = is_pos y then PosInf else NegInf)"

fun js_add :: "number \<Rightarrow> number \<Rightarrow> number" where
  "js_add (Fin a) (Fin b) = fl (a + b)"
| "js_add NaN y = NaN"
| "js_add x NaN = NaN"
| "js_add PosInf NegInf = NaN"
| "js_add NegInf PosInf = NaN"
| "js_add PosInf y = PosInf"
| "js_add x PosInf = PosInf"
| "js_add x y = NegInf"

fun js_div :: "number \<Rightarrow> number \<Rightarrow> number" where
  "js_div (Fin a) (Fin b) =
     (if b = 0 then (if a = 0 then NaN else if 0 < a then PosInf else NegInf)
      else fl (a / b))"
| "js_div NaN y = NaN"
| "js_div x NaN = NaN"
| "js_div (Fin a) y = Fin 0"
| "js_div x (Fin b) = (if is_pos x = (0 \<le> b) then PosInf else NegInf)"
| "js_div x y = NaN"

fun Math_floor :: "number \<Rightarrow> number" where
  "Math_floor (Fin a) = Fin (of_int \<lfloor>a\<rfloor>)"
| "Math_floor x = x"

text \<open>The comparisons; every comparison with \<open>NaN\<close> is false.\<close>

fun js_lt :: "number \<Rightarrow> number \<Rightarrow> bool" where
  "js_lt NaN y = False"
| "js_lt x NaN = False"
| "js_lt (Fin a) (Fin b) = (a < b)"
| "js_lt PosInf y = False"
| "js_lt x NegInf = False"
| "js_lt x y = True"

fun js_le :: "number \<Rightarrow> number \<Rightarrow> bool" where
  "js_le NaN y = False"
| "js_le x NaN = False"
| "js_le (Fin a) (Fin b) = (a \<le> b)"
| "js_le NegInf y = True"
| "js_le x PosInf = True"
| "js_le x y = False"

abbreviation js_gt :: "number \<Rightarrow> number \<Rightarrow> bool" where
  "js_gt x y \<equiv> js_lt y x"

abbreviation js_ge :: "number \<Rightarrow> number \<Rightarrow> bool" where
  "js_ge x y \<equiv> js_le y x"

text \<open>\<open>x === y\<close> on two numbers.\<close>

definition js_strict_eq :: "number \<Rightarrow> number \<Rightarrow> bool" where
  "js_strict_eq x y = (x \<noteq> NaN \<and> x = y)"

subsection \<open>JavaScript truthiness of optional fields\<close>

definition truthy_str :: "string option \<Rightarrow> bool" where
  "truthy_str s = (case s of None \<Rightarrow> False | Some x \<Rightarrow> x \<noteq> [])"

definition truthy_num :: "number option \<Rightarrow> bool" where
  "truthy_num n = (case n of None \<Rightarrow> False | Some x \<Rightarrow> x \<noteq> NaN \<and> x \<noteq> Fin 0)"

subsection \<open>Errors\<close>

datatype error =
    PriceMustBePositive                \<comment> \<open>\<open>'Price must be positive'\<close>\<close>
  | RoyaltyPercentageRange             \<comment> \<open>\<open>'Royalty percentage must be 0-100'\<close>\<close>
  | InvalidRoyaltyRecipient string     \<comment> \<open>\<open>`Invalid royalty recipient: ${royaltyRecipient}`\<close>\<close>
  | SellerDoesNotOwnAsset int          \<comment> \<open>\<open>`Seller does not own asset ${assetId}`\<close>\<close>
  | ListingNotFound string             \<comment> \<open>\<open>`Listing ${listingId} not found`\<close>\<close>
  | ListingNotActive string            \<comment> \<open>\<open>`Listing ${listingId} is not active`\<close> (buyAsset)\<close>
  | SellerAccountMismatch              \<comment> \<open>\<open>'Seller account does not match listing'\<close>\<close>
  | InsufficientBalance number         \<comment> \<open>\<open>`Insufficient balance. Need ${totalCost} microAlgos (including fees)`\<close>\<close>
  | OnlySellerCanCancel                \<comment> \<open>\<open>'Only seller can cancel listing'\<close>\<close>
  | ListingIsNotActive                 \<comment> \<open>\<open>'Listing is not active'\<close> (cancelListing)\<close>
  | NoTransactionsProvided             \<comment> \<open>\<open>'No transactions provided'\<close>\<close>
  | SignerCountMismatch                \<comment> \<open>\<open>'Number of transactions must match number of signers'\<close>\<close>
  | External string                    \<comment> \<open>an \<open>Error\<close> thrown by the ledger client, with its message\<close>
  | NonError                           \<comment> \<open>a thrown value that is not an \<open>Error\<close>\<close>
  | Failed string error                \<comment> \<open>a \<open>catch\<close> that rethrows \<open>`${prefix}: ${cause}`\<close>\<close>

text \<open>Decimal text of an integer, as a template literal prints it.\<close>

fun digits :: "nat \<Rightarrow> string" where
  "digits n =
     (if n < 10 then [''0123456789'' ! n]
      else digits (n div 10) @ [''0123456789'' ! (n mod 10)])"

declare digits.simps [simp del]

definition show_int :: "int \<Rightarrow> string" where
  "show_int i = (if i < 0 then ''-'' @ digits (nat (- i)) else digits (nat i))"

text \<open>
  The message of a thrown value where the source reads it:
  \<open>error instanceof Error ? error.message : 'Unknown error'\<close>. The text of a number
  in a template literal is the conversion of the JavaScript runtime, a parameter.
\<close>

fun message :: "(number \<Rightarrow> string) \<Rightarrow> error \<Rightarrow> string" where
  "message toStr PriceMustBePositive = ''Price must be positive''"
| "message toStr RoyaltyPercentageRange = ''Royalty percentage must be 0-100''"
| "message toStr (InvalidRoyaltyRecipient r) = ''Invalid royalty recipient: '' @ r"
| "message toStr (SellerDoesNotOwnAsset a) = ''Seller does not own asset '' @ show_int a"
| "message toStr (ListingNotFound l) = ''Listing '' @ l @ '' not found''"
| "message toStr (ListingNotActive l) = ''Listing '' @ l @ '' is not active''"
| "message toStr SellerAccountMismatch = ''Seller account does not match listing''"
| "message toStr (InsufficientBalance t) =
     ''Insufficient balance. Need '' @ toStr t @ '' microAlgos (including fees)''"
| "message toStr OnlySellerCanCancel = ''Only seller can cancel listing''"
| "message toStr ListingIsNotActive = ''Listing is not active''"
| "message toStr NoTransactionsProvided = ''No transactions provided''"
| "message toStr SignerCountMismatch = ''Number of transactions must match number of signers''"
| "message toStr (External m) = m"
| "message toStr NonError = ''Unknown error''"
| "message toStr (Failed p e) = p @ '': '' @ message toStr e"

text \<open>
  The source throws plain \<open>Error\<close> objects. The specification names failure kinds;
  \<open>kind\<close> reads each throw site as the kind the specification gives it. A rethrown
  failure keeps the kind of its cause.
\<close>

datatype error_kind =
    InvalidArgument | PreconditionFailed | InsufficientFunds | NotFound | InvalidState
  | Unauthorized | AuthorizationMismatch | ExternalFailure

fun kind :: "error \<Rightarrow> error_kind" where
  "kind PriceMustBePositive = InvalidArgument"
| "kind RoyaltyPercentageRange = InvalidArgument"
| "kind (InvalidRoyaltyRecipient r) = InvalidArgument"
| "kind (SellerDoesNotOwnAsset a) = PreconditionFailed"
| "kind (ListingNotFound l) = NotFound"
| "kind (ListingNotActive l) = InvalidState"
| "kind SellerAccountMismatch = InvalidArgument"
| "kind (InsufficientBalance t) = InsufficientFunds"
| "kind OnlySellerCanCancel = Unauthorized"
| "kind ListingIsNotActive = InvalidState"
| "kind NoTransactionsProvided = InvalidArgument"
| "kind SignerCountMismatch = AuthorizationMismatch"
| "kind (External m) = ExternalFailure"
| "kind NonError = ExternalFailure"
| "kind (Failed p e) = kind e"

subsection \<open>Data of the ledger client\<close>

text \<open>\<open>algosdk.Account\<close>: an address and its secret key (a \<open>Uint8Array\<close>).\<close>

record Account =
  addr :: string
  sk :: "nat list"

text \<open>One entry of \<open>accountInformation(...).assets\<close>.\<close>

record AssetHolding =
  asset_id :: int
  holding_amount :: number

text \<open>The answer of \<open>accountInformation\<close>: the balance and the optional asset list.\<close>

record AccountInfo =
  info_amount :: number
  info_assets :: "AssetHolding list option"

text \<open>Suggested parameters are passed through to the builders and never inspected.\<close>

record SuggestedParams =
  fee :: int
  firstRound :: int
  lastRound :: int
  genesisID :: string

datatype TxnType = pay | axfer

text \<open>The amount a builder receives: a \<open>number\<close>, or the \<open>bigint\<close> literal \<open>1n\<close>.\<close>

datatype amount = Number number | BigInt int

text \<open>
  An unsigned transaction holds the arguments its builder received
  (\<open>makePaymentTxnWithSuggestedParamsFromObject\<close> or
  \<open>makeAssetTransferTxnWithSuggestedParamsFromObject\<close>); \<open>group\<close> is the field
  \<open>assignGroupID\<close> writes.
\<close>

record Transaction =
  txn_type :: TxnType
  txn_from :: string
  txn_to :: string
  txn_amount :: amount
  assetIndex :: "int option"
  txn_note :: "string option"
  suggestedParams :: SuggestedParams
  group :: "nat list option"

text \<open>\<open>txn.signTxn(sk)\<close>: the signed blob stands for the transaction and the key.\<close>

record SignedTxn =
  signed_txn :: Transaction
  signed_with :: "nat list"

text \<open>
  The ledger client. \<open>txnError\<close>, \<open>groupError\<close> and \<open>signError\<close> say when a
  builder, \<open>assignGroupID\<close> and \<open>signTxn\<close> throw, and what.
\<close>

record 'w AlgorandClient =
  accountInformation :: "'w \<Rightarrow> string \<Rightarrow> error + AccountInfo"
  getTransactionParams :: "'w \<Rightarrow> error + SuggestedParams"
  sendRawTransaction :: "'w \<Rightarrow> SignedTxn list \<Rightarrow> (error + string) \<times> 'w"
  waitForConfirmation :: "'w \<Rightarrow> string \<Rightarrow> nat \<Rightarrow> (error + unit) \<times> 'w"
  assetOptIn :: "'w \<Rightarrow> Account \<Rightarrow> int \<Rightarrow> (error + string) \<times> 'w"
  isValidAddress :: "string \<Rightarrow> bool"
  computeGroupID :: "Transaction list \<Rightarrow> nat list"
  txnError :: "Transaction \<Rightarrow> error option"
  groupError :: "Transaction list \<Rightarrow> error option"
  signError :: "Transaction \<Rightarrow> nat list \<Rightarrow> error option"

text \<open>
  Modelled from the spec: the constant \<open>algosdk.ALGORAND_MIN_TX_FEE\<close> belongs to the
  external library; the comment of \<open>PaymentManager.getMinFee\<close> gives its value,
  1000 microAlgos.
\<close>

definition ALGORAND_MIN_TX_FEE :: number where
  "ALGORAND_MIN_TX_FEE = Fin 1000"

subsection \<open>AssetManager and PaymentManager helpers\<close>

datatype HoldingResult = OneHolding "AssetHolding option" | AllHoldings "AssetHolding list"

definition getAssetHolding ::
  "'w AlgorandClient \<Rightarrow> 'w \<Rightarrow> string \<Rightarrow> int option \<Rightarrow> error + HoldingResult" where
  "getAssetHolding env w address assetId =
     (case accountInformation env w address of
        Inl e \<Rightarrow> Inl (Failed ''Failed to get asset holdings'' e)
      | Inr accountInfo \<Rightarrow>
          (let assets = (case info_assets accountInfo of None \<Rightarrow> [] | Some xs \<Rightarrow> xs)
           in case assetId of
                Some i \<Rightarrow> Inr (OneHolding (find (\<lambda>a. asset_id a = i) assets))
              | None \<Rightarrow> Inr (AllHoldings assets)))"

definition optIn ::
  "'w AlgorandClient \<Rightarrow> 'w \<Rightarrow> Account \<Rightarrow> int \<Rightarrow> (error + string) \<times> 'w" where
  "optIn env w account assetId =
     (case assetOptIn env w account assetId of
        (Inl e, w') \<Rightarrow> (Inl (Failed ''Opt-in failed'' e), w')
      | (Inr txId, w') \<Rightarrow> (Inr txId, w'))"

definition getMinFee :: number where
  "getMinFee = ALGORAND_MIN_TX_FEE"

text \<open>\<open>PaymentManager.calculateTotalCost(amount)\<close>: the amount plus one minimum fee.\<close>

definition payment_calculateTotalCost :: "number \<Rightarrow> number" where
  "payment_calculateTotalCost amount = js_add amount getMinFee"

definition hasSufficientBalance ::
  "'w AlgorandClient \<Rightarrow> 'w \<Rightarrow> string \<Rightarrow> number \<Rightarrow> bool \<Rightarrow> error + bool" where
  "hasSufficientBalance env w address amount includeFee =
     (case accountInformation env w address of
        Inl e \<Rightarrow> Inl (Failed ''Balance check failed'' e)
      | Inr accountInfo \<Rightarrow>
          (let required = (if includeFee then payment_calculateTotalCost amount else amount)
           in Inr (js_ge (info_amount accountInfo) required)))"

subsection \<open>AtomicTransactionManager\<close>

text \<open>The transaction objects that hold the arguments of the two builders.\<close>

definition paymentTxn ::
  "string \<Rightarrow> string \<Rightarrow> number \<Rightarrow> string option \<Rightarrow> SuggestedParams \<Rightarrow> Transaction" where
  "paymentTxn f t a n sp =
     \<lparr>txn_type = pay, txn_from = f, txn_to = t, txn_amount = Number a,
      assetIndex = None, txn_note = n, suggestedParams = sp, group = None\<rparr>"

definition assetTransferTxn ::
  "string \<Rightarrow> string \<Rightarrow> int \<Rightarrow> int \<Rightarrow> SuggestedParams \<Rightarrow> Transaction" where
  "assetTransferTxn f t idx a sp =
     \<lparr>txn_type = axfer, txn_from = f, txn_to = t, txn_amount = BigInt a,
      assetIndex = Some idx, txn_note = None, suggestedParams = sp, group = None\<rparr>"

text \<open>A builder throws, or returns the transaction that holds its arguments.\<close>

definition makePaymentTxn ::
  "'w AlgorandClient \<Rightarrow> string \<Rightarrow> string \<Rightarrow> number \<Rightarrow> string option \<Rightarrow> SuggestedParams \<Rightarrow>
   error + Transaction" where
  "makePaymentTxn env f t a n sp =
     (case txnError env (paymentTxn f t a n sp) of
        Some e \<Rightarrow> Inl e
      | None \<Rightarrow> Inr (paymentTxn f t a n sp))"

definition makeAssetTransferTxn ::
  "'w AlgorandClient \<Rightarrow> string \<Rightarrow> string \<Rightarrow> int \<Rightarrow> int \<Rightarrow> SuggestedParams \<Rightarrow>
   error + Transaction" where
  "makeAssetTransferTxn env f t idx a sp =
     (case txnError env (assetTransferTxn f t idx a sp) of
        Some e \<Rightarrow> Inl e
      | None \<Rightarrow> Inr (assetTransferTxn f t idx a sp))"

text \<open>
  \<open>algosdk.assignGroupID(txns)\<close> throws, or writes one group id into every
  transaction.
\<close>

definition assignGroupID ::
  "'w AlgorandClient \<Rightarrow> Transaction list \<Rightarrow> error + Transaction list" where
  "assignGroupID env txns =
     (case groupError env txns of
        Some e \<Rightarrow> Inl e
      | None \<Rightarrow> Inr (map (\<lambda>t. t\<lparr>group := Some (computeGroupID env txns)\<rparr>) txns))"

definition signTxn :: "'w AlgorandClient \<Rightarrow> Transaction \<Rightarrow> nat list \<Rightarrow> error + SignedTxn" where
  "signTxn env t k =
     (case signError env t k of
        Some e \<Rightarrow> Inl e
      | None \<Rightarrow> Inr \<lparr>signed_txn = t, signed_with = k\<rparr>)"

text \<open>Signing one transaction after the other; the first failure ends the run.\<close>

fun signEach ::
  "'w AlgorandClient \<Rightarrow> (Transaction \<times> nat list) list \<Rightarrow> error + SignedTxn list" where
  "signEach env [] = Inr []"
| "signEach env ((t, k) # rest) =
     (case signTxn env t k of
        Inl e \<Rightarrow> Inl e
      | Inr s \<Rightarrow> (case signEach env rest of Inl e \<Rightarrow> Inl e | Inr ss \<Rightarrow> Inr (s # ss)))"

text \<open>
  \<open>marketplacePurchase\<close>, lines 98 to 136: the list \<open>transactions\<close> after the three
  pushes. A builder failure and the recipient check throw inside the \<open>try\<close> block.
\<close>

definition purchaseTransactions ::
  "'w AlgorandClient \<Rightarrow> SuggestedParams \<Rightarrow> Account \<Rightarrow> Account \<Rightarrow> int \<Rightarrow> number \<Rightarrow>
   string option \<Rightarrow> number option \<Rightarrow> error + Transaction list" where
  "purchaseTransactions env sp buyer seller assetId price royaltyRecipient royaltyAmount =
     (case makePaymentTxn env (addr buyer) (addr seller) price None sp of
        Inl e \<Rightarrow> Inl e
      | Inr t1 \<Rightarrow>
         (case makeAssetTransferTxn env (addr seller) (addr buyer) assetId 1 sp of
            Inl e \<Rightarrow> Inl e
          | Inr t2 \<Rightarrow>
             if truthy_str royaltyRecipient \<and> truthy_num royaltyAmount \<and>
                js_gt (the royaltyAmount) (Fin 0)
             then (if \<not> isValidAddress env (the royaltyRecipient)
                   then Inl (InvalidRoyaltyRecipient (the royaltyRecipient))
                   else (case makePaymentTxn env (addr buyer) (the royaltyRecipient)
                                (the royaltyAmount) (Some ''Royalty payment'') sp of
                           Inl e \<Rightarrow> Inl e
                         | Inr t3 \<Rightarrow> Inr [t1, t2, t3]))
             else Inr [t1, t2]))"

text \<open>
  \<open>marketplacePurchase\<close>, lines 142 to 147: the signatures on the grouped list. The
  list has two or three elements, so \<open>transactions[0]\<close> and \<open>transactions[1]\<close> exist.
\<close>

definition signPurchase ::
  "'w AlgorandClient \<Rightarrow> Account \<Rightarrow> Account \<Rightarrow> Transaction list \<Rightarrow> error + SignedTxn list" where
  "signPurchase env buyer seller grouped =
     signEach env
       ([(grouped ! 0, sk buyer), (grouped ! 1, sk seller)] @
        (if length grouped = 3 then [(grouped ! 2, sk buyer)] else []))"

definition marketplacePurchase ::
  "'w AlgorandClient \<Rightarrow> 'w \<Rightarrow> Account \<Rightarrow> Account \<Rightarrow> int \<Rightarrow> number \<Rightarrow>
   string option \<Rightarrow> number option \<Rightarrow> (error + string) \<times> 'w" where
  "marketplacePurchase env w buyer seller assetId price royaltyRecipient royaltyAmount =
     (case getTransactionParams env w of
        Inl e \<Rightarrow> (Inl (Failed ''Marketplace purchase failed'' e), w)
      | Inr sp \<Rightarrow>
         (case purchaseTransactions env sp buyer seller assetId price
                 royaltyRecipient royaltyAmount of
            Inl e \<Rightarrow> (Inl (Failed ''Marketplace purchase failed'' e), w)
          | Inr transactions \<Rightarrow>
             (case assignGroupID env transactions of
                Inl e \<Rightarrow> (Inl (Failed ''Marketplace purchase failed'' e), w)
              | Inr grouped \<Rightarrow>
                 (case signPurchase env buyer seller grouped of
                    Inl e \<Rightarrow> (Inl (Failed ''Marketplace purchase failed'' e), w)
                  | Inr signedTxns \<Rightarrow>
                     (case sendRawTransaction env w signedTxns of
                        (Inl e, w1) \<Rightarrow> (Inl (Failed ''Marketplace purchase failed'' e), w1)
                      | (Inr txId, w1) \<Rightarrow>
                         (case waitForConfirmation env w1 txId 4 of
                            (Inl e, w2) \<Rightarrow>
                              (Inl (Failed ''Marketplace purchase failed'' e), w2)
                          | (Inr u, w2) \<Rightarrow> (Inr txId, w2)))))))"

definition executeAtomicGroup ::
  "'w AlgorandClient \<Rightarrow> 'w \<Rightarrow> Transaction list \<Rightarrow> Account list \<Rightarrow> (error + string) \<times> 'w" where
  "executeAtomicGroup env w transactions signers =
     (if length transactions = 0
      then (Inl (Failed ''Atomic group execution failed'' NoTransactionsProvided), w)
      else if length transactions \<noteq> length signers
      then (Inl (Failed ''Atomic group execution failed'' SignerCountMismatch), w)
      else
        (case assignGroupID env transactions of
           Inl e \<Rightarrow> (Inl (Failed ''Atomic group execution failed'' e), w)
         | Inr grouped \<Rightarrow>
            (case signEach env
                    (map (\<lambda>i. (grouped ! i, sk (signers ! i))) [0 ..< length grouped]) of
               Inl e \<Rightarrow> (Inl (Failed ''Atomic group execution failed'' e), w)
             | Inr signedTxns \<Rightarrow>
                (case sendRawTransaction env w signedTxns of
                   (Inl e, w1) \<Rightarrow> (Inl (Failed ''Atomic group execution failed'' e), w1)
                 | (Inr txId, w1) \<Rightarrow>
                    (case waitForConfirmation env w1 txId 4 of
                       (Inl e, w2) \<Rightarrow> (Inl (Failed ''Atomic group execution failed'' e), w2)
                     | (Inr u, w2) \<Rightarrow> (Inr txId, w2))))))"

subsection \<open>FixedPriceMarketplace\<close>

datatype status = active | sold | cancelled

record Listing =
  id_listing :: string
  assetId :: int
  seller :: string
  price :: number
  royaltyRecipient :: "string option"
  royaltyPercentage :: "number option"
  createdAt :: int
  status :: status

record FixedPriceMarketplace =
  listings :: "(string \<times> Listing) list"

text \<open>The constructor: an empty \<open>Map\<close>.\<close>

definition new_marketplace :: FixedPriceMarketplace where
  "new_marketplace = \<lparr>listings = []\<rparr>"

text \<open>The template literal \<open>`listing_${assetId}_${Date.now()}`\<close>.\<close>

definition listingId_of :: "int \<Rightarrow> int \<Rightarrow> string" where
  "listingId_of a now = ''listing_'' @ show_int a @ ''_'' @ show_int now"

text \<open>\<open>!holding || holding.amount === 0\<close> on the answer of \<open>getAssetHolding\<close>.\<close>

definition no_holding :: "HoldingResult \<Rightarrow> bool" where
  "no_holding h =
     (case h of
        OneHolding None \<Rightarrow> True
      | OneHolding (Some a) \<Rightarrow> js_strict_eq (holding_amount a) (Fin 0)
      | AllHoldings xs \<Rightarrow> False)"

text \<open>
  \<open>listAsset\<close>. The two arguments \<open>now\<close> and \<open>now'\<close> are the values of the two calls
  of \<open>Date.now()\<close> (the id, then \<open>createdAt\<close>). The ledger is only queried.
\<close>

definition listAsset ::
  "'w AlgorandClient \<Rightarrow> FixedPriceMarketplace \<Rightarrow> 'w \<Rightarrow> int \<Rightarrow> int \<Rightarrow>
   Account \<Rightarrow> int \<Rightarrow> number \<Rightarrow> string option \<Rightarrow> number option \<Rightarrow>
   (error + string) \<times> FixedPriceMarketplace" where
  "listAsset env st w now now' seller_acct asset p rRecipient rPercentage =
     (if js_le p (Fin 0) then (Inl PriceMustBePositive, st)
      else if truthy_num rPercentage \<and>
              (js_lt (the rPercentage) (Fin 0) \<or> js_gt (the rPercentage) (Fin 100))
      then (Inl RoyaltyPercentageRange, st)
      else if truthy_str rRecipient \<and> \<not> isValidAddress env (the rRecipient)
      then (Inl (InvalidRoyaltyRecipient (the rRecipient)), st)
      else
        (case getAssetHolding env w (addr seller_acct) (Some asset) of
           Inl e \<Rightarrow> (Inl e, st)
         | Inr holding \<Rightarrow>
            if no_holding holding then (Inl (SellerDoesNotOwnAsset asset), st)
            else
              (let listingId = listingId_of asset now;
                   listing = \<lparr>id_listing = listingId, assetId = asset,
                              seller = addr seller_acct, price = p,
                              royaltyRecipient = rRecipient,
                              royaltyPercentage = rPercentage,
                              createdAt = now', status = active\<rparr>
               in (Inr listingId,
                   st\<lparr>listings := AList.update listingId listing (listings st)\<rparr>))))"

text \<open>
  The royalty of \<open>buyAsset\<close> (lines 127 to 130): the variable \<open>royaltyAmount\<close>
  after the \<open>if\<close>.
\<close>

definition royaltyAmount_of :: "Listing \<Rightarrow> number" where
  "royaltyAmount_of listing =
     (if truthy_str (royaltyRecipient listing) \<and> truthy_num (royaltyPercentage listing)
      then Math_floor
             (js_div (js_mul (price listing) (the (royaltyPercentage listing))) (Fin 100))
      else Fin 0)"

text \<open>\<open>info.assets?.some(a => a['asset-id'] === assetId)\<close>; \<open>undefined\<close> is falsy.\<close>

definition hasOptedIn :: "AccountInfo \<Rightarrow> int \<Rightarrow> bool" where
  "hasOptedIn info asset =
     (case info_assets info of
        None \<Rightarrow> False
      | Some xs \<Rightarrow> list_ex (\<lambda>a. asset_id a = asset) xs)"

text \<open>\<open>listing.price + royaltyAmount + algosdk.ALGORAND_MIN_TX_FEE * 2\<close>.\<close>

definition totalCost_of :: "Listing \<Rightarrow> number" where
  "totalCost_of listing =
     js_add (js_add (price listing) (royaltyAmount_of listing))
            (js_mul ALGORAND_MIN_TX_FEE (Fin 2))"

definition buyAsset ::
  "'w AlgorandClient \<Rightarrow> FixedPriceMarketplace \<Rightarrow> 'w \<Rightarrow> Account \<Rightarrow> string \<Rightarrow> Account \<Rightarrow>
   (error + string) \<times> FixedPriceMarketplace \<times> 'w" where
  "buyAsset env st w buyer listingId sellerAccount =
     (case map_of (listings st) listingId of
        None \<Rightarrow> (Inl (ListingNotFound listingId), st, w)
      | Some listing \<Rightarrow>
         if status listing \<noteq> active then (Inl (ListingNotActive listingId), st, w)
         else if addr sellerAccount \<noteq> seller listing
         then (Inl SellerAccountMismatch, st, w)
         else
           (case accountInformation env w (addr buyer) of
              Inl e \<Rightarrow> (Inl e, st, w)
            | Inr info \<Rightarrow>
               (case (if \<not> hasOptedIn info (assetId listing)
                      then optIn env w buyer (assetId listing)
                      else (Inr [], w)) of
                  (Inl e, w1) \<Rightarrow> (Inl e, st, w1)
                | (Inr opt, w1) \<Rightarrow>
                   (let royaltyAmount = royaltyAmount_of listing;
                        totalCost = totalCost_of listing
                    in case hasSufficientBalance env w1 (addr buyer) totalCost False of
                         Inl e \<Rightarrow> (Inl e, st, w1)
                       | Inr hasFunds \<Rightarrow>
                          if \<not> hasFunds then (Inl (InsufficientBalance totalCost), st, w1)
                          else
                            (case marketplacePurchase env w1 buyer sellerAccount
                                    (assetId listing) (price listing)
                                    (royaltyRecipient listing) (Some royaltyAmount) of
                               (Inl e, w2) \<Rightarrow> (Inl e, st, w2)
                             | (Inr txId, w2) \<Rightarrow>
                                (Inr txId,
                                 st\<lparr>listings :=
                                      AList.update listingId (listing\<lparr>status := sold\<rparr>)
                                        (listings st)\<rparr>,
                                 w2))))))"

definition cancelListing ::
  "FixedPriceMarketplace \<Rightarrow> Account \<Rightarrow> string \<Rightarrow> (error + unit) \<times> FixedPriceMarketplace" where
  "cancelListing st seller_acct listingId =
     (case map_of (listings st) listingId of
        None \<Rightarrow> (Inl (ListingNotFound listingId), st)
      | Some listing \<Rightarrow>
         if seller listing \<noteq> addr seller_acct then (Inl OnlySellerCanCancel, st)
         else if status listing \<noteq> active then (Inl ListingIsNotActive, st)
         else (Inr (),
               st\<lparr>listings :=
                    AList.update listingId (listing\<lparr>status := cancelled\<rparr>) (listings st)\<rparr>))"

definition getListing :: "FixedPriceMarketplace \<Rightarrow> string \<Rightarrow> Listing option" where
  "getListing st listingId = map_of (listings st) listingId"

definition getActiveListings :: "FixedPriceMarketplace \<Rightarrow> Listing list" where
  "getActiveListings st = filter (\<lambda>l. status l = active) (map snd (listings st))"

definition getListingsBySeller :: "FixedPriceMarketplace \<Rightarrow> string \<Rightarrow> Listing list" where
  "getListingsBySeller st sellerAddress =
     filter (\<lambda>l. seller l = sellerAddress) (map snd (listings st))"

definition getListingsByAsset :: "FixedPriceMarketplace \<Rightarrow> int \<Rightarrow> Listing list" where
  "getListingsByAsset st asset = filter (\<lambda>l. assetId l = asset) (map snd (listings st))"

text \<open>
  \<open>calculateTotalCost\<close>: \<open>total\<close> starts as the price, the royalty is added when the
  listing has one, then two minimum fees are added.
\<close>

definition calculateTotalCost :: "FixedPriceMarketplace \<Rightarrow> string \<Rightarrow> error + number" where
  "calculateTotalCost st listingId =
     (case map_of (listings st) listingId of
        None \<Rightarrow> Inl (ListingNotFound listingId)
      | Some listing \<Rightarrow>
          (let total = price listing;
               total = (if truthy_str (royaltyRecipient listing) \<and>
                           truthy_num (royaltyPercentage listing)
                        then js_add total
                               (Math_floor
                                  (js_div (js_mul (price listing)
                                             (the (royaltyPercentage listing))) (Fin 100)))
                        else total);
               total = js_add total (js_mul ALGORAND_MIN_TX_FEE (Fin 2))
           in Inr total))"

subsection \<open>Histories of the registry\<close>

text \<open>
  The registries a caller can obtain: the empty one, and the result of any of the
  three mutating methods on an obtainable one, whatever the arguments, the clock
  and the ledger state are and whether the call succeeds or fails.
\<close>

inductive reachable :: "'w AlgorandClient \<Rightarrow> FixedPriceMarketplace \<Rightarrow> bool"
  for env :: "'w AlgorandClient" where
  reach_new: "reachable env new_marketplace"
| reach_list:
    "reachable env st \<Longrightarrow>
     listAsset env st w now now' seller_acct asset p rRecipient rPercentage = (r, st') \<Longrightarrow>
     reachable env st'"
| reach_buy:
    "reachable env st \<Longrightarrow>
     buyAsset env st w buyer listingId sellerAccount = (r, st', w') \<Longrightarrow>
     reachable env st'"
| reach_cancel:
    "reachable env st \<Longrightarrow>
     cancelListing st seller_acct listingId = (u, st') \<Longrightarrow>
     reachable env st'"

subsection \<open>A concrete ledger client and concrete accounts\<close>

text \<open>
  A small ledger used to run the methods on concrete inputs. Its state counts the
  submitted groups. Alice holds one unit of asset 42; Bob holds 10 Algos and has
  opted into asset 42; Carol holds 1 Algo and no asset; Dave has no account; Erin
  holds a billion Algos and has opted into asset 42. Submission succeeds when
  \<open>accept\<close> is true and is rejected otherwise. A builder refuses an amount that is
  not a non-negative integer below \<open>2^53\<close>, as the builders of algosdk do.
\<close>

definition alice :: Account where
  "alice = \<lparr>addr = ''ALICE'', sk = [1]\<rparr>"

definition bob :: Account where
  "bob = \<lparr>addr = ''BOB'', sk = [2]\<rparr>"

definition carol :: Account where
  "carol = \<lparr>addr = ''CAROL'', sk = [3]\<rparr>"

definition dave :: Account where
  "dave = \<lparr>addr = ''DAVE'', sk = [4]\<rparr>"

definition erin :: Account where
  "erin = \<lparr>addr = ''ERIN'', sk = [5]\<rparr>"

definition demo_params :: SuggestedParams where
  "demo_params = \<lparr>fee = 1000, firstRound = 1, lastRound = 1001, genesisID = ''testnet-v1.0''\<rparr>"

definition demo_account :: "string \<Rightarrow> error + AccountInfo" where
  "demo_account a =
     (if a = ''ALICE''
      then Inr \<lparr>info_amount = Fin 10000000,
                info_assets = Some [\<lparr>asset_id = 42, holding_amount = Fin 1\<rparr>]\<rparr>
      else if a = ''BOB''
      then Inr \<lparr>info_amount = Fin 10000000,
                info_assets = Some [\<lparr>asset_id = 42, holding_amount = Fin 0\<rparr>]\<rparr>
      else if a = ''CAROL''
      then Inr \<lparr>info_amount = Fin 1000000, info_assets = None\<rparr>
      else if a = ''ERIN''
      then Inr \<lparr>info_amount = Fin 1000000000000000,
                info_assets = Some [\<lparr>asset_id = 42, holding_amount = Fin 0\<rparr>]\<rparr>
      else Inl (External ''account not found''))"

definition demo_amount_ok :: "amount \<Rightarrow> bool" where
  "demo_amount_ok a =
     (case a of
        Number (Fin r) \<Rightarrow> 0 \<le> r \<and> r = of_int \<lfloor>r\<rfloor> \<and> r < 2 ^ 53
      | Number x \<Rightarrow> False
      | BigInt i \<Rightarrow> 0 \<le> i)"

definition demo_client :: "bool \<Rightarrow> nat AlgorandClient" where
  "demo_client accept =
     \<lparr>accountInformation = (\<lambda>w a. demo_account a),
      getTransactionParams = (\<lambda>w. Inr demo_params),
      sendRawTransaction =
        (\<lambda>w txns. if accept then (Inr ''TXID'', Suc w)
                   else (Inl (External ''transaction rejected''), w)),
      waitForConfirmation = (\<lambda>w txId rounds. (Inr (), w)),
      assetOptIn = (\<lambda>w account asset. (Inr ''OPTIN'', Suc w)),
      isValidAddress = (\<lambda>a. a = ''ALICE'' \<or> a = ''BOB'' \<or> a = ''CAROL''),
      computeGroupID = (\<lambda>txns. [length txns]),
      txnError =
        (\<lambda>t. if demo_amount_ok (txn_amount t) then None
              else Some (External ''Amount must be a positive number'')),
      groupError = (\<lambda>txns. None),
      signError = (\<lambda>t k. None)\<rparr>"

text \<open>A listing of asset 42 by Alice for 5 Algos, without and with a 5 percent royalty.\<close>

definition demo_listing :: "string option \<Rightarrow> number option \<Rightarrow> status \<Rightarrow> Listing" where
  "demo_listing rRecipient rPercentage s =
     \<lparr>id_listing = ''listing_42_1000'', assetId = 42, seller = ''ALICE'', price = Fin 5000000,
      royaltyRecipient = rRecipient, royaltyPercentage = rPercentage,
      createdAt = 1000, status = s\<rparr>"

text \<open>The same listing at another price.\<close>

definition demo_listing_at ::
  "number \<Rightarrow> string option \<Rightarrow> number option \<Rightarrow> status \<Rightarrow> Listing" where
  "demo_listing_at p rRecipient rPercentage s = (demo_listing rRecipient rPercentage s)\<lparr>price := p\<rparr>"

definition demo_registry_at ::
  "number \<Rightarrow> string option \<Rightarrow> number option \<Rightarrow> status \<Rightarrow> FixedPriceMarketplace" where
  "demo_registry_at p rRecipient rPercentage s =
     \<lparr>listings = [(''listing_42_1000'', demo_listing_at p rRecipient rPercentage s)]\<rparr>"

definition demo_registry ::
  "string option \<Rightarrow> number option \<Rightarrow> status \<Rightarrow> FixedPriceMarketplace" where
  "demo_registry rRecipient rPercentage s =
     \<lparr>listings = [(''listing_42_1000'', demo_listing rRecipient rPercentage s)]\<rparr>"

section \<open>Properties\<close>

subsection \<open>Rounding is exact on integers below \<open>2^53\<close>\<close>

lemma ilog2_le: "1 \<le> n \<Longrightarrow> 2 ^ ilog2 n \<le> n"
proof (induction n rule: ilog2.induct)
  case (1 n)
  show ?case
  proof (cases "n < 2")
    case True
    with "1.prems" show ?thesis by (simp add: ilog2.simps)
  next
    case False
    then have "1 \<le> n div 2" by simp
    with "1.IH" False have "2 ^ ilog2 (n div 2) \<le> n div 2" by simp
    then have "2 * 2 ^ ilog2 (n div 2) \<le> 2 * (n div 2)" by simp
    also have "\<dots> \<le> n" by simp
    finally show ?thesis using False by (simp add: ilog2.simps [of n])
  qed
qed

lemma expo_less:
  assumes "0 < a" and "a < 2 ^ k" and "0 < k"
  shows "expo a < int k"
proof (cases "1 \<le> a")
  case True
  then have n1: "1 \<le> nat \<lfloor>a\<rfloor>" by (simp add: le_nat_iff)
  have "(2::nat) ^ ilog2 (nat \<lfloor>a\<rfloor>) \<le> nat \<lfloor>a\<rfloor>"
    using ilog2_le [OF n1] .
  then have "(of_nat (2 ^ ilog2 (nat \<lfloor>a\<rfloor>)) :: rat) \<le> of_nat (nat \<lfloor>a\<rfloor>)"
    by (simp only: of_nat_le_iff)
  also have "(of_nat (nat \<lfloor>a\<rfloor>) :: rat) = of_int \<lfloor>a\<rfloor>"
    using True by simp
  also have "\<dots> \<le> a" by simp
  also have "a < 2 ^ k" by fact
  finally have "(2::rat) ^ ilog2 (nat \<lfloor>a\<rfloor>) < 2 ^ k" by simp
  then have "ilog2 (nat \<lfloor>a\<rfloor>) < k"
    by (simp add: power_strict_increasing_iff)
  with True show ?thesis by (simp add: expo_def)
next
  case False
  then have "expo a \<le> 0" by (simp add: expo_def Let_def)
  with assms(3) show ?thesis by simp
qed

lemma pow2_quantum:
  assumes "e \<le> 52"
  shows "pow2 (e - 52) = 1 / 2 ^ nat (52 - e)"
proof (cases "e = 52")
  case True
  then show ?thesis by (simp add: pow2_def)
next
  case False
  with assms have "e - 52 < 0" by simp
  then show ?thesis by (simp add: pow2_def)
qed

lemma round_even_of_int [simp]: "round_even (of_int k) = k"
  by (simp add: round_even_def)

lemma round_even_ge: "of_int K \<le> z \<Longrightarrow> K \<le> round_even z"
proof -
  assume "of_int K \<le> z"
  then have "K \<le> \<lfloor>z\<rfloor>" by (simp add: le_floor_iff)
  then show ?thesis by (simp add: round_even_def Let_def)
qed

lemma round_even_less:
  assumes "z < of_int K - 1 / 2"
  shows "round_even z < K"
proof -
  have fl: "of_int \<lfloor>z\<rfloor> \<le> z" by simp
  with assms have "(of_int \<lfloor>z\<rfloor> :: rat) < of_int K" by linarith
  then have lt: "\<lfloor>z\<rfloor> < K" by simp
  show ?thesis
  proof (cases "\<lfloor>z\<rfloor> = K - 1")
    case True
    then have "of_int \<lfloor>z\<rfloor> = (of_int K :: rat) - 1" by simp
    with assms have "z - of_int \<lfloor>z\<rfloor> < 1 / 2" by linarith
    with lt show ?thesis by (simp add: round_even_def Let_def)
  next
    case False
    with lt have "\<lfloor>z\<rfloor> + 1 < K" by simp
    then show ?thesis by (simp add: round_even_def Let_def)
  qed
qed


lemma below_pow2_1024: "x < 2 ^ 53 \<Longrightarrow> x < pow2 1024"
proof -
  assume "x < 2 ^ 53"
  moreover have "(2::rat) ^ 53 \<le> 2 ^ 1024"
    by (rule power_increasing) simp_all
  moreover have "pow2 1024 = 2 ^ nat 1024"
    by (simp only: pow2_def) simp
  ultimately show ?thesis by simp
qed

lemma quantum_bounded:
  assumes "0 < a" and "a < 2 ^ k" and "0 < k" and "k \<le> 53"
  shows "\<exists>N. 53 \<le> N + k \<and> quantum a = 1 / 2 ^ N"
proof -
  define e where "e = max (expo a) (- 1022)"
  from expo_less [OF assms(1) assms(2) assms(3)] have "expo a < int k" .
  with assms(3) have ek: "e < int k" by (simp add: e_def)
  with assms(4) have e52: "e \<le> 52" by simp
  from ek e52 have "53 \<le> nat (52 - e) + k" by simp
  moreover have "quantum a = 1 / 2 ^ nat (52 - e)"
    unfolding quantum_def e_def [symmetric] by (rule pow2_quantum [OF e52])
  ultimately show ?thesis by blast
qed

lemma nearest_of_int:
  assumes "0 < i" and "i < 2 ^ 53"
  shows "nearest (of_int i) = of_int i"
proof -
  have pos: "(0::rat) < of_int i" using assms(1) by simp
  have "(of_int i :: rat) < of_int (2 ^ 53)" using assms(2) by (simp only: of_int_less_iff)
  then have lt: "(of_int i :: rat) < 2 ^ 53" by simp
  from quantum_bounded [OF pos lt] obtain N where q: "quantum (of_int i) = 1 / 2 ^ N"
    by auto
  have "(of_int i :: rat) / (1 / 2 ^ N) = of_int (i * 2 ^ N)" by simp
  then have "round_even (of_int i / (1 / 2 ^ N)) = i * 2 ^ N"
    by (simp only: round_even_of_int)
  then show ?thesis
    by (simp add: nearest_def q)
qed

lemma fl_of_int:
  assumes "\<bar>i\<bar> < 2 ^ 53"
  shows "fl (of_int i) = Fin (of_int i)"
proof (cases "i = 0")
  case True
  then show ?thesis by (simp add: fl_def)
next
  case False
  then have pos: "0 < \<bar>i\<bar>" by simp
  have abs: "\<bar>of_int i :: rat\<bar> = of_int \<bar>i\<bar>" by simp
  have n: "nearest (of_int \<bar>i\<bar>) = of_int \<bar>i\<bar>"
    by (rule nearest_of_int [OF pos assms])
  have "(of_int \<bar>i\<bar> :: rat) < of_int (2 ^ 53)" using assms by (simp only: of_int_less_iff)
  then have "(of_int \<bar>i\<bar> :: rat) < 2 ^ 53" by simp
  then have "(of_int \<bar>i\<bar> :: rat) < pow2 1024" by (rule below_pow2_1024)
  then have small: "\<not> pow2 1024 \<le> (of_int \<bar>i\<bar> :: rat)" by simp
  from False have nz: "(of_int i :: rat) \<noteq> 0" by simp
  show ?thesis
    unfolding fl_def abs n using nz small by (cases "0 < i") simp_all
qed


lemma nearest_div_100:
  assumes "0 < a" and "a < 2 ^ 53"
  shows "of_int (a div 100) \<le> nearest (of_int a / 100) \<and>
         nearest (of_int a / 100) < of_int (a div 100) + 1"
proof -
  define x :: rat where "x = of_int a / 100"
  define k where "k = a div 100"
  have pos: "0 < x" using assms(1) by (simp add: x_def)
  have "(of_int a :: rat) < of_int (2 ^ 53)" using assms(2) by (simp only: of_int_less_iff)
  then have "(of_int a :: rat) < 2 ^ 53" by simp
  then have lt: "x < 2 ^ 47" by (simp add: x_def)
  from quantum_bounded [OF pos lt] obtain N where N: "53 \<le> N + 47" and q: "quantum x = 1 / 2 ^ N"
    by auto
  from N have "6 \<le> N" by simp
  then have "(2::rat) ^ 6 \<le> 2 ^ N" by (rule power_increasing) simp
  then have big: "(64::rat) \<le> 2 ^ N" by simp
  define m where "m = round_even (x * 2 ^ N)"
  have near: "nearest x = of_int m / 2 ^ N"
    by (simp add: nearest_def q m_def)
  have "100 * k \<le> a" unfolding k_def by simp
  then have "(of_int (100 * k) :: rat) \<le> of_int a" by (simp only: of_int_le_iff)
  then have lower: "of_int k \<le> x" by (simp add: x_def)
  have "a < 100 * k + 100" unfolding k_def
    using pos_mod_bound [of 100 a] div_mult_mod_eq [of a 100] by linarith
  then have "a \<le> 100 * k + 99" by simp
  then have "(of_int a :: rat) \<le> of_int (100 * k + 99)" by (simp only: of_int_le_iff)
  then have upper: "x \<le> of_int k + 99 / 100" by (simp add: x_def)
  have "(of_int (k * 2 ^ N) :: rat) = of_int k * 2 ^ N" by simp
  also have "\<dots> \<le> x * 2 ^ N" using lower by simp
  finally have "k * 2 ^ N \<le> m" unfolding m_def by (rule round_even_ge)
  then have "(of_int (k * 2 ^ N) :: rat) \<le> of_int m" by (simp only: of_int_le_iff)
  then have "of_int k * 2 ^ N \<le> (of_int m :: rat)" by simp
  then have ge: "of_int k \<le> (of_int m :: rat) / 2 ^ N"
    by (simp add: pos_le_divide_eq)
  have "x * 2 ^ N \<le> (of_int k + 99 / 100) * 2 ^ N" using upper by simp
  also have "\<dots> = of_int ((k + 1) * 2 ^ N) - 2 ^ N / 100" by (simp add: algebra_simps)
  also have "\<dots> < of_int ((k + 1) * 2 ^ N) - 1 / 2" using big by simp
  finally have "m < (k + 1) * 2 ^ N" unfolding m_def by (rule round_even_less)
  then have "(of_int m :: rat) < of_int ((k + 1) * 2 ^ N)" by (simp only: of_int_less_iff)
  then have "(of_int m :: rat) < (of_int k + 1) * 2 ^ N" by simp
  then have less: "(of_int m :: rat) / 2 ^ N < of_int k + 1"
    by (simp add: pos_divide_less_eq)
  from ge less show ?thesis
    unfolding x_def [symmetric] k_def [symmetric] near by simp
qed


lemma js_mul_int:
  "\<bar>a * b\<bar> < 2 ^ 53 \<Longrightarrow> js_mul (Fin (of_int a)) (Fin (of_int b)) = Fin (of_int (a * b))"
  using fl_of_int [of "a * b"] by simp

lemma floor_div_100_int:
  assumes "0 \<le> a" and "a < 2 ^ 53"
  shows "Math_floor (js_div (Fin (of_int a)) (Fin 100)) = Fin (of_int (a div 100))"
proof (cases "a = 0")
  case True
  then show ?thesis by (simp add: fl_def)
next
  case False
  with assms(1) have pos: "0 < a" by simp
  from nearest_div_100 [OF pos assms(2)]
  have ge: "of_int (a div 100) \<le> nearest (of_int a / 100)"
    and lt: "nearest (of_int a / 100) < of_int (a div 100) + 1"
    by simp_all
  have "a div 100 + 1 \<le> a" using pos by simp
  then have "a div 100 + 1 < 2 ^ 53" using assms(2) by simp
  then have "(of_int (a div 100 + 1) :: rat) < of_int (2 ^ 53)" by (simp only: of_int_less_iff)
  then have "(of_int (a div 100) :: rat) + 1 < 2 ^ 53" by simp
  with lt have "nearest (of_int a / 100) < 2 ^ 53" by simp
  then have "nearest (of_int a / 100) < pow2 1024" by (rule below_pow2_1024)
  then have small: "\<not> pow2 1024 \<le> nearest (of_int a / 100)" by simp
  have xpos: "(0::rat) < of_int a / 100" using pos by simp
  then have abs: "\<bar>of_int a / 100 :: rat\<bar> = of_int a / 100" by simp
  have "fl (of_int a / 100) = Fin (nearest (of_int a / 100))"
    unfolding fl_def abs using xpos small by simp
  moreover have "\<lfloor>nearest (of_int a / 100)\<rfloor> = a div 100"
    using ge lt by (simp add: floor_unique)
  ultimately show ?thesis by simp
qed


subsection \<open>Unfolding rules for concrete runs\<close>

lemmas demo_defs = demo_client_def demo_registry_def demo_listing_def demo_account_def
  demo_params_def demo_amount_ok_def alice_def bob_def carol_def dave_def erin_def
  demo_listing_at_def demo_registry_at_def

lemmas model_defs = buyAsset_def listAsset_def cancelListing_def calculateTotalCost_def
  hasOptedIn_def royaltyAmount_of_def totalCost_of_def truthy_str_def truthy_num_def
  hasSufficientBalance_def marketplacePurchase_def purchaseTransactions_def signPurchase_def
  assignGroupID_def signTxn_def makePaymentTxn_def makeAssetTransferTxn_def paymentTxn_def
  assetTransferTxn_def optIn_def
  getAssetHolding_def no_holding_def js_strict_eq_def payment_calculateTotalCost_def
  getMinFee_def new_marketplace_def

text \<open>The arithmetic of the concrete runs: a numeral below \<open>2^53\<close> is a double.\<close>

lemma fl_numeral:
  assumes "(numeral n :: int) < 2 ^ 53"
  shows "fl (numeral n) = Fin (numeral n)"
  using assms fl_of_int [of "numeral n"] by simp

text \<open>Rounding at a concrete number is found by unfolding.\<close>

lemma floor_numeral_div: "\<lfloor>(numeral a :: rat) / numeral b\<rfloor> = numeral a div numeral b"
  using floor_divide_of_int_eq [of "numeral a" "numeral b", where ?'a = rat] by simp

lemmas fl_defs = fl_def nearest_def quantum_def expo_def pow2_def round_even_def
  floor_numeral_div ilog2.simps Let_def

lemma two_fees: "js_mul ALGORAND_MIN_TX_FEE (Fin 2) = Fin 2000"
  by (simp add: ALGORAND_MIN_TX_FEE_def fl_numeral)

text \<open>
  The concrete registries are what \<open>listAsset\<close> builds when Alice lists asset 42 at
  time 1000.
\<close>

lemma demo_registry_listed:
  "listAsset (demo_client accept) new_marketplace w 1000 1000 alice 42 (Fin 5000000) None None =
     (Inr ''listing_42_1000'', demo_registry None None active)"
  "listAsset (demo_client accept) new_marketplace w 1000 1000 alice 42 (Fin 5000000)
     (Some ''CAROL'') (Some (Fin 5)) =
     (Inr ''listing_42_1000'', demo_registry (Some ''CAROL'') (Some (Fin 5)) active)"
  "listAsset (demo_client accept) new_marketplace w 1000 1000 alice 42 (Fin 5000000)
     None (Some (Fin 5)) =
     (Inr ''listing_42_1000'', demo_registry None (Some (Fin 5)) active)"
  by (simp_all add: model_defs demo_defs listingId_of_def show_int_def digits.simps Let_def)

lemma demo_bought:
  "buyAsset (demo_client True) (demo_registry None None active) 0 bob ''listing_42_1000'' alice =
     (Inr ''TXID'', demo_registry None None sold, 1)"
  "buyAsset (demo_client True) (demo_registry (Some ''CAROL'') (Some (Fin 5)) active) 0 bob
     ''listing_42_1000'' alice =
     (Inr ''TXID'', demo_registry (Some ''CAROL'') (Some (Fin 5)) sold, 1)"
  by (simp_all add: model_defs demo_defs two_fees fl_numeral Let_def)

subsection \<open>What a successful purchase went through\<close>

text \<open>
  A purchase that returns a transaction id has found the listing active, matched the
  seller, read the buyer's account, passed the balance check and settled.
\<close>

lemma buyAsset_returns_settlement:
  assumes "buyAsset env st w buyer listingId sellerAccount = (Inr txId, st', w')"
  shows "\<exists>listing info opt w1.
           map_of (listings st) listingId = Some listing \<and> status listing = active \<and>
           addr sellerAccount = seller listing \<and>
           accountInformation env w (addr buyer) = Inr info \<and>
           (if \<not> hasOptedIn info (assetId listing)
            then optIn env w buyer (assetId listing) else (Inr [], w)) = (Inr opt, w1) \<and>
           hasSufficientBalance env w1 (addr buyer) (totalCost_of listing) False = Inr True \<and>
           marketplacePurchase env w1 buyer sellerAccount (assetId listing) (price listing)
             (royaltyRecipient listing) (Some (royaltyAmount_of listing)) = (Inr txId, w') \<and>
           st' = st\<lparr>listings :=
                    AList.update listingId (listing\<lparr>status := sold\<rparr>) (listings st)\<rparr>"
  using assms
  by (auto simp: buyAsset_def Let_def split: option.splits if_splits sum.splits prod.splits)


subsection \<open>The legs of the settlement group and their signatures\<close>

lemma signEach_Inr:
  "signEach env xs = Inr ss \<Longrightarrow>
     map signed_txn ss = map fst xs \<and> map signed_with ss = map snd xs \<and>
     (\<forall>x \<in> set xs. signError env (fst x) (snd x) = None)"
proof (induction xs arbitrary: ss)
  case Nil
  then show ?case by simp
next
  case (Cons x xs)
  obtain t k where x: "x = (t, k)" by (cases x)
  from Cons.prems x obtain s rest where
    s: "signTxn env t k = Inr s" and rest: "signEach env xs = Inr rest" and ss: "ss = s # rest"
    by (auto split: sum.splits)
  from s have "signed_txn s = t \<and> signed_with s = k \<and> signError env t k = None"
    by (auto simp: signTxn_def split: option.splits)
  with Cons.IH [OF rest] x ss show ?case by simp
qed

text \<open>A purchase that returns a transaction id has built, grouped, signed and submitted.\<close>

lemma marketplacePurchase_submits:
  assumes "marketplacePurchase env w buyer sellerA asset p rr ra = (Inr txId, w')"
  shows "\<exists>sp txns grouped signed w1.
           getTransactionParams env w = Inr sp \<and>
           purchaseTransactions env sp buyer sellerA asset p rr ra = Inr txns \<and>
           assignGroupID env txns = Inr grouped \<and>
           signPurchase env buyer sellerA grouped = Inr signed \<and>
           sendRawTransaction env w signed = (Inr txId, w1) \<and>
           waitForConfirmation env w1 txId 4 = (Inr (), w')"
  using assms
  by (auto simp: marketplacePurchase_def split: sum.splits prod.splits)

text \<open>The list built by the three pushes.\<close>

lemma purchaseTransactions_Inr:
  assumes "purchaseTransactions env sp buyer sellerA asset p rr ra = Inr txns"
  shows "txns =
           [paymentTxn (addr buyer) (addr sellerA) p None sp,
            assetTransferTxn (addr sellerA) (addr buyer) asset 1 sp] @
           (if \<exists>r a. rr = Some r \<and> r \<noteq> [] \<and> ra = Some a \<and> js_gt a (Fin 0)
            then [paymentTxn (addr buyer) (the rr) (the ra) (Some ''Royalty payment'') sp]
            else [])"
    and "(\<exists>r a. rr = Some r \<and> r \<noteq> [] \<and> ra = Some a \<and> js_gt a (Fin 0)) \<Longrightarrow>
           isValidAddress env (the rr)"
    and "list_all (\<lambda>t. txnError env t = None) txns"
proof -
  have cond: "(truthy_str rr \<and> truthy_num ra \<and> js_gt (the ra) (Fin 0)) =
              (\<exists>r a. rr = Some r \<and> r \<noteq> [] \<and> ra = Some a \<and> js_gt a (Fin 0))"
    by (cases rr; cases ra) (auto simp: truthy_str_def truthy_num_def)
  from assms show "txns =
           [paymentTxn (addr buyer) (addr sellerA) p None sp,
            assetTransferTxn (addr sellerA) (addr buyer) asset 1 sp] @
           (if \<exists>r a. rr = Some r \<and> r \<noteq> [] \<and> ra = Some a \<and> js_gt a (Fin 0)
            then [paymentTxn (addr buyer) (the rr) (the ra) (Some ''Royalty payment'') sp]
            else [])"
    unfolding purchaseTransactions_def cond
    by (auto simp: makePaymentTxn_def makeAssetTransferTxn_def
             split: sum.splits option.splits if_splits)
  from assms show "(\<exists>r a. rr = Some r \<and> r \<noteq> [] \<and> ra = Some a \<and> js_gt a (Fin 0)) \<Longrightarrow>
           isValidAddress env (the rr)"
    unfolding purchaseTransactions_def cond
    by (auto simp: makePaymentTxn_def makeAssetTransferTxn_def
             split: sum.splits option.splits if_splits)
  from assms show "list_all (\<lambda>t. txnError env t = None) txns"
    unfolding purchaseTransactions_def cond
    by (auto simp: makePaymentTxn_def makeAssetTransferTxn_def
             split: sum.splits option.splits if_splits)
qed

lemma signPurchase_Inr:
  assumes "signPurchase env buyer sellerA grouped = Inr signed"
      and "length grouped = 2 \<or> length grouped = 3"
  shows "map signed_txn signed = grouped"
    and "map signed_with signed =
           [sk buyer, sk sellerA] @ (if length grouped = 3 then [sk buyer] else [])"
proof -
  from assms(2) have shape: "(\<exists>a b. grouped = [a, b]) \<or> (\<exists>a b c. grouped = [a, b, c])"
    by (cases grouped; cases "tl grouped"; cases "tl (tl grouped)"; cases "tl (tl (tl grouped))")
       auto
  from signEach_Inr [OF assms(1) [unfolded signPurchase_def]] shape
  show "map signed_txn signed = grouped"
    by auto
  from signEach_Inr [OF assms(1) [unfolded signPurchase_def]] shape
  show "map signed_with signed =
           [sk buyer, sk sellerA] @ (if length grouped = 3 then [sk buyer] else [])"
    by auto
qed


subsection \<open>The legs a purchase submits, and the royalty of a listing\<close>

text \<open>The legs of the group that a successful purchase has submitted.\<close>

lemma marketplacePurchase_submitted_legs:
  assumes "marketplacePurchase env w buyer sellerA asset p rr ra = (Inr txId, w')"
  shows "\<exists>signed w1.
           sendRawTransaction env w signed = (Inr txId, w1) \<and>
           waitForConfirmation env w1 txId 4 = (Inr (), w') \<and>
           map (\<lambda>s. (txn_type (signed_txn s), txn_from (signed_txn s), txn_to (signed_txn s),
                      txn_amount (signed_txn s))) signed =
             [(pay, addr buyer, addr sellerA, Number p),
              (axfer, addr sellerA, addr buyer, BigInt 1)] @
             (if \<exists>r a. rr = Some r \<and> r \<noteq> [] \<and> ra = Some a \<and> js_gt a (Fin 0)
              then [(pay, addr buyer, the rr, Number (the ra))] else [])"
proof -
  let ?cond = "\<exists>r a. rr = Some r \<and> r \<noteq> [] \<and> ra = Some a \<and> js_gt a (Fin 0)"
  from marketplacePurchase_submits [OF assms]
  obtain sp txns grouped signed w1 where
    built: "purchaseTransactions env sp buyer sellerA asset p rr ra = Inr txns" and
    grouped: "assignGroupID env txns = Inr grouped" and
    signed: "signPurchase env buyer sellerA grouped = Inr signed" and
    sent: "sendRawTransaction env w signed = (Inr txId, w1)" and
    confirmed: "waitForConfirmation env w1 txId 4 = (Inr (), w')"
    by (elim exE conjE)
  have txns: "txns =
      [paymentTxn (addr buyer) (addr sellerA) p None sp,
       assetTransferTxn (addr sellerA) (addr buyer) asset 1 sp] @
      (if ?cond then [paymentTxn (addr buyer) (the rr) (the ra) (Some ''Royalty payment'') sp]
       else [])"
    by (rule purchaseTransactions_Inr(1) [OF built])
  from grouped have g: "grouped = map (\<lambda>t. t\<lparr>group := Some (computeGroupID env txns)\<rparr>) txns"
    by (auto simp: assignGroupID_def split: option.splits)
  from txns g have "length grouped = 2 \<or> length grouped = 3"
    by (simp split: if_splits)
  from signPurchase_Inr(1) [OF signed this] have blobs: "map signed_txn signed = grouped" .
  have "map (\<lambda>s. (txn_type (signed_txn s), txn_from (signed_txn s), txn_to (signed_txn s),
                   txn_amount (signed_txn s))) signed =
        map (\<lambda>t. (txn_type t, txn_from t, txn_to t, txn_amount t)) (map signed_txn signed)"
    by simp
  also have "\<dots> = map (\<lambda>t. (txn_type t, txn_from t, txn_to t, txn_amount t)) txns"
    unfolding blobs g by simp
  also have "\<dots> = [(pay, addr buyer, addr sellerA, Number p),
                     (axfer, addr sellerA, addr buyer, BigInt 1)] @
                    (if ?cond then [(pay, addr buyer, the rr, Number (the ra))] else [])"
    unfolding txns by (simp add: paymentTxn_def assetTransferTxn_def)
  finally show ?thesis
    using sent confirmed by blast
qed

text \<open>The royalty of a listing whose price and percentage are integers.\<close>

lemma royaltyAmount_of_int:
  assumes "price listing = Fin (of_int p)"
      and "royaltyPercentage listing = Some (Fin (of_int c))"
      and "royaltyRecipient listing = Some r" and "r \<noteq> []"
      and "0 \<le> p * c" and "p * c < 2 ^ 53"
  shows "royaltyAmount_of listing = Fin (of_int (p * c div 100))"
proof (cases "c = 0")
  case True
  with assms show ?thesis
    by (simp add: royaltyAmount_of_def truthy_num_def)
next
  case False
  from assms(5,6) have "\<bar>p * c\<bar> < 2 ^ 53" by simp
  from js_mul_int [OF this]
  have "js_mul (Fin (of_int p)) (Fin (of_int c)) = Fin (of_int (p * c))" .
  with floor_div_100_int [OF assms(5) assms(6)]
  have "Math_floor (js_div (js_mul (Fin (of_int p)) (Fin (of_int c))) (Fin 100)) =
        Fin (of_int (p * c div 100))"
    by (simp only:)
  with assms(1-4) False show ?thesis
    by (simp add: royaltyAmount_of_def truthy_num_def truthy_str_def)
qed


subsection \<open>The sold transition follows the settlement\<close>

text \<open>
  Claim C1. Whatever \<open>buyAsset\<close> returns:
  \<^item> if it returns an error, the registry is the one it was called on;
  \<^item> if it returns a transaction id, the listing was stored and active, every check
    passed, the settlement step \<open>marketplacePurchase\<close>, called on the ledger state the
    opt-in step left, returned that id, and the registry differs from the old one only
    by the \<open>sold\<close> status written at that listing id.

  Step by step, the error of the first step that fails is the error \<open>buyAsset\<close>
  returns, with the registry unchanged: an unknown listing, a listing that is not
  active, a seller that does not match, a failure of the account query, of the
  opt-in, of the balance query, a balance that is too small, and a failure of the
  settlement. Only when the settlement returns a transaction id is \<open>sold\<close> written.
\<close>

theorem buyAsset_sold_only_after_settlement:
  assumes "buyAsset env st w buyer listingId sellerAccount = (r, st', w')"
  shows "(\<forall>e. r = Inl e \<longrightarrow> st' = st) \<and>
         (\<forall>txId. r = Inr txId \<longrightarrow>
            (\<exists>listing info opt w1.
               map_of (listings st) listingId = Some listing \<and> status listing = active \<and>
               addr sellerAccount = seller listing \<and>
               accountInformation env w (addr buyer) = Inr info \<and>
               (if \<not> hasOptedIn info (assetId listing)
                then optIn env w buyer (assetId listing) else (Inr [], w)) = (Inr opt, w1) \<and>
               hasSufficientBalance env w1 (addr buyer) (totalCost_of listing) False
                 = Inr True \<and>
               marketplacePurchase env w1 buyer sellerAccount (assetId listing) (price listing)
                 (royaltyRecipient listing) (Some (royaltyAmount_of listing)) = (Inr txId, w') \<and>
               st' = st\<lparr>listings :=
                        AList.update listingId (listing\<lparr>status := sold\<rparr>) (listings st)\<rparr>)) \<and>
         (map_of (listings st) listingId = None \<longrightarrow>
            r = Inl (ListingNotFound listingId) \<and> st' = st \<and> w' = w) \<and>
         (\<forall>listing.
            map_of (listings st) listingId = Some listing \<and> status listing \<noteq> active \<longrightarrow>
            r = Inl (ListingNotActive listingId) \<and> st' = st \<and> w' = w) \<and>
         (\<forall>listing.
            map_of (listings st) listingId = Some listing \<and> status listing = active \<and>
            addr sellerAccount \<noteq> seller listing \<longrightarrow>
            r = Inl SellerAccountMismatch \<and> st' = st \<and> w' = w) \<and>
         (\<forall>listing e.
            map_of (listings st) listingId = Some listing \<and> status listing = active \<and>
            addr sellerAccount = seller listing \<and>
            accountInformation env w (addr buyer) = Inl e \<longrightarrow>
            r = Inl e \<and> st' = st \<and> w' = w) \<and>
         (\<forall>listing info e w1.
            map_of (listings st) listingId = Some listing \<and> status listing = active \<and>
            addr sellerAccount = seller listing \<and>
            accountInformation env w (addr buyer) = Inr info \<and>
            (if \<not> hasOptedIn info (assetId listing)
             then optIn env w buyer (assetId listing) else (Inr [], w)) = (Inl e, w1) \<longrightarrow>
            r = Inl e \<and> st' = st \<and> w' = w1) \<and>
         (\<forall>listing info opt w1 e.
            map_of (listings st) listingId = Some listing \<and> status listing = active \<and>
            addr sellerAccount = seller listing \<and>
            accountInformation env w (addr buyer) = Inr info \<and>
            (if \<not> hasOptedIn info (assetId listing)
             then optIn env w buyer (assetId listing) else (Inr [], w)) = (Inr opt, w1) \<and>
            hasSufficientBalance env w1 (addr buyer) (totalCost_of listing) False = Inl e \<longrightarrow>
            r = Inl e \<and> st' = st \<and> w' = w1) \<and>
         (\<forall>listing info opt w1.
            map_of (listings st) listingId = Some listing \<and> status listing = active \<and>
            addr sellerAccount = seller listing \<and>
            accountInformation env w (addr buyer) = Inr info \<and>
            (if \<not> hasOptedIn info (assetId listing)
             then optIn env w buyer (assetId listing) else (Inr [], w)) = (Inr opt, w1) \<and>
            hasSufficientBalance env w1 (addr buyer) (totalCost_of listing) False
              = Inr False \<longrightarrow>
            r = Inl (InsufficientBalance (totalCost_of listing)) \<and> st' = st \<and> w' = w1) \<and>
         (\<forall>listing info opt w1 e w2.
            map_of (listings st) listingId = Some listing \<and> status listing = active \<and>
            addr sellerAccount = seller listing \<and>
            accountInformation env w (addr buyer) = Inr info \<and>
            (if \<not> hasOptedIn info (assetId listing)
             then optIn env w buyer (assetId listing) else (Inr [], w)) = (Inr opt, w1) \<and>
            hasSufficientBalance env w1 (addr buyer) (totalCost_of listing) False
              = Inr True \<and>
            marketplacePurchase env w1 buyer sellerAccount (assetId listing) (price listing)
              (royaltyRecipient listing) (Some (royaltyAmount_of listing)) = (Inl e, w2) \<longrightarrow>
            r = Inl e \<and> st' = st \<and> w' = w2) \<and>
         (\<forall>listing info opt w1 txId w2.
            map_of (listings st) listingId = Some listing \<and> status listing = active \<and>
            addr sellerAccount = seller listing \<and>
            accountInformation env w (addr buyer) = Inr info \<and>
            (if \<not> hasOptedIn info (assetId listing)
             then optIn env w buyer (assetId listing) else (Inr [], w)) = (Inr opt, w1) \<and>
            hasSufficientBalance env w1 (addr buyer) (totalCost_of listing) False
              = Inr True \<and>
            marketplacePurchase env w1 buyer sellerAccount (assetId listing) (price listing)
              (royaltyRecipient listing) (Some (royaltyAmount_of listing)) = (Inr txId, w2) \<longrightarrow>
            r = Inr txId \<and>
            st' = st\<lparr>listings :=
                     AList.update listingId (listing\<lparr>status := sold\<rparr>) (listings st)\<rparr> \<and>
            w' = w2)"
proof -
  have unchanged: "\<forall>e. r = Inl e \<longrightarrow> st' = st"
    using assms
    by (auto simp: buyAsset_def Let_def split: option.splits if_splits sum.splits prod.splits)
  have settled: "\<forall>txId. r = Inr txId \<longrightarrow>
            (\<exists>listing info opt w1.
               map_of (listings st) listingId = Some listing \<and> status listing = active \<and>
               addr sellerAccount = seller listing \<and>
               accountInformation env w (addr buyer) = Inr info \<and>
               (if \<not> hasOptedIn info (assetId listing)
                then optIn env w buyer (assetId listing) else (Inr [], w)) = (Inr opt, w1) \<and>
               hasSufficientBalance env w1 (addr buyer) (totalCost_of listing) False
                 = Inr True \<and>
               marketplacePurchase env w1 buyer sellerAccount (assetId listing) (price listing)
                 (royaltyRecipient listing) (Some (royaltyAmount_of listing)) = (Inr txId, w') \<and>
               st' = st\<lparr>listings :=
                        AList.update listingId (listing\<lparr>status := sold\<rparr>) (listings st)\<rparr>)"
    using assms buyAsset_returns_settlement [of env st w buyer listingId sellerAccount _ st' w']
    by blast
  have unknown: "map_of (listings st) listingId = None \<longrightarrow>
            r = Inl (ListingNotFound listingId) \<and> st' = st \<and> w' = w"
    using assms by (auto simp: buyAsset_def)
  have inactive: "\<forall>listing.
            map_of (listings st) listingId = Some listing \<and> status listing \<noteq> active \<longrightarrow>
            r = Inl (ListingNotActive listingId) \<and> st' = st \<and> w' = w"
    using assms by (auto simp: buyAsset_def)
  have mismatch: "\<forall>listing.
            map_of (listings st) listingId = Some listing \<and> status listing = active \<and>
            addr sellerAccount \<noteq> seller listing \<longrightarrow>
            r = Inl SellerAccountMismatch \<and> st' = st \<and> w' = w"
    using assms by (auto simp: buyAsset_def)
  have account: "\<forall>listing e.
            map_of (listings st) listingId = Some listing \<and> status listing = active \<and>
            addr sellerAccount = seller listing \<and>
            accountInformation env w (addr buyer) = Inl e \<longrightarrow>
            r = Inl e \<and> st' = st \<and> w' = w"
    using assms by (auto simp: buyAsset_def)
  have optin: "\<forall>listing info e w1.
            map_of (listings st) listingId = Some listing \<and> status listing = active \<and>
            addr sellerAccount = seller listing \<and>
            accountInformation env w (addr buyer) = Inr info \<and>
            (if \<not> hasOptedIn info (assetId listing)
             then optIn env w buyer (assetId listing) else (Inr [], w)) = (Inl e, w1) \<longrightarrow>
            r = Inl e \<and> st' = st \<and> w' = w1"
    using assms by (auto simp: buyAsset_def split: if_splits)
  have balance: "\<forall>listing info opt w1 e.
            map_of (listings st) listingId = Some listing \<and> status listing = active \<and>
            addr sellerAccount = seller listing \<and>
            accountInformation env w (addr buyer) = Inr info \<and>
            (if \<not> hasOptedIn info (assetId listing)
             then optIn env w buyer (assetId listing) else (Inr [], w)) = (Inr opt, w1) \<and>
            hasSufficientBalance env w1 (addr buyer) (totalCost_of listing) False = Inl e \<longrightarrow>
            r = Inl e \<and> st' = st \<and> w' = w1"
    using assms by (auto simp: buyAsset_def Let_def split: if_splits)
  have short: "\<forall>listing info opt w1.
            map_of (listings st) listingId = Some listing \<and> status listing = active \<and>
            addr sellerAccount = seller listing \<and>
            accountInformation env w (addr buyer) = Inr info \<and>
            (if \<not> hasOptedIn info (assetId listing)
             then optIn env w buyer (assetId listing) else (Inr [], w)) = (Inr opt, w1) \<and>
            hasSufficientBalance env w1 (addr buyer) (totalCost_of listing) False
              = Inr False \<longrightarrow>
            r = Inl (InsufficientBalance (totalCost_of listing)) \<and> st' = st \<and> w' = w1"
    using assms by (auto simp: buyAsset_def Let_def split: if_splits)
  have refused: "\<forall>listing info opt w1 e w2.
            map_of (listings st) listingId = Some listing \<and> status listing = active \<and>
            addr sellerAccount = seller listing \<and>
            accountInformation env w (addr buyer) = Inr info \<and>
            (if \<not> hasOptedIn info (assetId listing)
             then optIn env w buyer (assetId listing) else (Inr [], w)) = (Inr opt, w1) \<and>
            hasSufficientBalance env w1 (addr buyer) (totalCost_of listing) False
              = Inr True \<and>
            marketplacePurchase env w1 buyer sellerAccount (assetId listing) (price listing)
              (royaltyRecipient listing) (Some (royaltyAmount_of listing)) = (Inl e, w2) \<longrightarrow>
            r = Inl e \<and> st' = st \<and> w' = w2"
    using assms by (auto simp: buyAsset_def Let_def split: if_splits)
  have sold: "\<forall>listing info opt w1 txId w2.
            map_of (listings st) listingId = Some listing \<and> status listing = active \<and>
            addr sellerAccount = seller listing \<and>
            accountInformation env w (addr buyer) = Inr info \<and>
            (if \<not> hasOptedIn info (assetId listing)
             then optIn env w buyer (assetId listing) else (Inr [], w)) = (Inr opt, w1) \<and>
            hasSufficientBalance env w1 (addr buyer) (totalCost_of listing) False
              = Inr True \<and>
            marketplacePurchase env w1 buyer sellerAccount (assetId listing) (price listing)
              (royaltyRecipient listing) (Some (royaltyAmount_of listing)) = (Inr txId, w2) \<longrightarrow>
            r = Inr txId \<and>
            st' = st\<lparr>listings :=
                     AList.update listingId (listing\<lparr>status := sold\<rparr>) (listings st)\<rparr> \<and>
            w' = w2"
    using assms by (auto simp: buyAsset_def Let_def split: if_splits)
  show ?thesis
    by (rule conjI [OF unchanged conjI [OF settled conjI [OF unknown conjI [OF inactive
          conjI [OF mismatch conjI [OF account conjI [OF optin conjI [OF balance
          conjI [OF short conjI [OF refused sold]]]]]]]]]])
qed

text \<open>
  Bob buys Alice's listing on the concrete ledger. When the ledger accepts the group
  the listing becomes \<open>sold\<close>; when it rejects the group the purchase fails with the
  settlement's error and the listing stays \<open>active\<close>. Dave has no account, and his
  purchase fails with the error of the account query. Carol opts in and then fails
  the balance check.
\<close>

theorem buyAsset_sold_only_after_settlement_witness:
  "marketplacePurchase (demo_client True) 0 bob alice 42 (Fin 5000000) None (Some (Fin 0)) =
     (Inr ''TXID'', 1) \<and>
   buyAsset (demo_client True) (demo_registry None None active) 0 bob ''listing_42_1000'' alice =
     (Inr ''TXID'', demo_registry None None sold, 1) \<and>
   marketplacePurchase (demo_client False) 0 bob alice 42 (Fin 5000000) None (Some (Fin 0)) =
     (Inl (Failed ''Marketplace purchase failed'' (External ''transaction rejected'')), 0) \<and>
   buyAsset (demo_client False) (demo_registry None None active) 0 bob ''listing_42_1000'' alice =
     (Inl (Failed ''Marketplace purchase failed'' (External ''transaction rejected'')),
      demo_registry None None active, 0) \<and>
   accountInformation (demo_client True) 0 (addr dave) = Inl (External ''account not found'') \<and>
   buyAsset (demo_client True) (demo_registry None None active) 0 dave ''listing_42_1000'' alice =
     (Inl (External ''account not found''), demo_registry None None active, 0) \<and>
   buyAsset (demo_client True) (demo_registry None None active) 0 carol ''listing_42_1000'' alice =
     (Inl (InsufficientBalance (Fin 5002000)), demo_registry None None active, 1)"
proof -
  have settle_ok: "marketplacePurchase (demo_client True) 0 bob alice 42 (Fin 5000000) None
                     (Some (Fin 0)) = (Inr ''TXID'', 1)"
    by (simp add: model_defs demo_defs fl_numeral)
  have settle_ko: "marketplacePurchase (demo_client False) 0 bob alice 42 (Fin 5000000) None
                     (Some (Fin 0)) =
     (Inl (Failed ''Marketplace purchase failed'' (External ''transaction rejected'')), 0)"
    by (simp add: model_defs demo_defs fl_numeral)
  have no_account: "accountInformation (demo_client True) 0 (addr dave) =
                      Inl (External ''account not found'')"
    by (simp add: demo_defs)
  have path_ok: "map_of (listings (demo_registry None None active)) ''listing_42_1000'' = Some (demo_listing None None active) \<and>
      status (demo_listing None None active) = active \<and>
      addr alice = seller (demo_listing None None active) \<and>
      accountInformation (demo_client True) 0 (addr bob) = Inr \<lparr>info_amount = Fin 10000000, info_assets = Some [\<lparr>asset_id = 42, holding_amount = Fin 0\<rparr>]\<rparr> \<and>
      (if \<not> hasOptedIn \<lparr>info_amount = Fin 10000000, info_assets = Some [\<lparr>asset_id = 42, holding_amount = Fin 0\<rparr>]\<rparr> (assetId (demo_listing None None active))
       then optIn (demo_client True) 0 bob (assetId (demo_listing None None active))
       else (Inr [], 0)) = (Inr [], 0) \<and>
      hasSufficientBalance (demo_client True) 0 (addr bob) (totalCost_of (demo_listing None None active)) False = Inr True \<and>
      marketplacePurchase (demo_client True) 0 bob alice (assetId (demo_listing None None active)) (price (demo_listing None None active))
        (royaltyRecipient (demo_listing None None active)) (Some (royaltyAmount_of (demo_listing None None active))) = (Inr ''TXID'', 1)"
    by (simp add: model_defs demo_defs two_fees fl_numeral)
  obtain r1 s1 w1 where run1:
    "buyAsset (demo_client True) (demo_registry None None active) 0 bob ''listing_42_1000'' alice =
       (r1, s1, w1)"
    by (rule prod_cases3)
  from buyAsset_sold_only_after_settlement [OF run1, THEN conjunct2, THEN conjunct2, THEN conjunct2, THEN conjunct2, THEN conjunct2, THEN conjunct2, THEN conjunct2, THEN conjunct2, THEN conjunct2, THEN conjunct2, rule_format, OF path_ok]
  have "r1 = Inr ''TXID'' \<and>
        s1 = (demo_registry None None active)\<lparr>listings :=
               AList.update ''listing_42_1000'' ((demo_listing None None active)\<lparr>status := sold\<rparr>)
                 (listings (demo_registry None None active))\<rparr> \<and>
        w1 = 1" .
  then have "r1 = Inr ''TXID'' \<and> s1 = demo_registry None None sold \<and> w1 = 1"
    by (simp add: demo_registry_def demo_listing_def)
  with run1 have bought:
    "buyAsset (demo_client True) (demo_registry None None active) 0 bob ''listing_42_1000'' alice =
       (Inr ''TXID'', demo_registry None None sold, 1)"
    by simp
  have path_ko: "map_of (listings (demo_registry None None active)) ''listing_42_1000'' = Some (demo_listing None None active) \<and>
      status (demo_listing None None active) = active \<and>
      addr alice = seller (demo_listing None None active) \<and>
      accountInformation (demo_client False) 0 (addr bob) = Inr \<lparr>info_amount = Fin 10000000, info_assets = Some [\<lparr>asset_id = 42, holding_amount = Fin 0\<rparr>]\<rparr> \<and>
      (if \<not> hasOptedIn \<lparr>info_amount = Fin 10000000, info_assets = Some [\<lparr>asset_id = 42, holding_amount = Fin 0\<rparr>]\<rparr> (assetId (demo_listing None None active))
       then optIn (demo_client False) 0 bob (assetId (demo_listing None None active))
       else (Inr [], 0)) = (Inr [], 0) \<and>
      hasSufficientBalance (demo_client False) 0 (addr bob) (totalCost_of (demo_listing None None active)) False = Inr True \<and>
      marketplacePurchase (demo_client False) 0 bob alice (assetId (demo_listing None None active)) (price (demo_listing None None active))
        (royaltyRecipient (demo_listing None None active)) (Some (royaltyAmount_of (demo_listing None None active))) =
        (Inl (Failed ''Marketplace purchase failed'' (External ''transaction rejected'')), 0)"
    by (simp add: model_defs demo_defs two_fees fl_numeral)
  obtain r2 s2 w2 where run2:
    "buyAsset (demo_client False) (demo_registry None None active) 0 bob ''listing_42_1000'' alice =
       (r2, s2, w2)"
    by (rule prod_cases3)
  from buyAsset_sold_only_after_settlement [OF run2, THEN conjunct2, THEN conjunct2, THEN conjunct2, THEN conjunct2, THEN conjunct2, THEN conjunct2, THEN conjunct2, THEN conjunct2, THEN conjunct2, THEN conjunct1, rule_format, OF path_ko]
  have "r2 = Inl (Failed ''Marketplace purchase failed'' (External ''transaction rejected'')) \<and>
        s2 = demo_registry None None active \<and> w2 = 0" .
  with run2 have rejected:
    "buyAsset (demo_client False) (demo_registry None None active) 0 bob ''listing_42_1000'' alice =
       (Inl (Failed ''Marketplace purchase failed'' (External ''transaction rejected'')),
        demo_registry None None active, 0)"
    by simp
  have path_dave: "map_of (listings (demo_registry None None active)) ''listing_42_1000'' =
        Some (demo_listing None None active) \<and>
      status (demo_listing None None active) = active \<and>
      addr alice = seller (demo_listing None None active) \<and>
      accountInformation (demo_client True) 0 (addr dave) = Inl (External ''account not found'')"
    by (simp add: demo_defs)
  obtain r3 s3 w3 where run3:
    "buyAsset (demo_client True) (demo_registry None None active) 0 dave ''listing_42_1000'' alice =
       (r3, s3, w3)"
    by (rule prod_cases3)
  from buyAsset_sold_only_after_settlement [OF run3, THEN conjunct2, THEN conjunct2, THEN conjunct2, THEN conjunct2, THEN conjunct2, THEN conjunct1, rule_format, OF path_dave]
  have "r3 = Inl (External ''account not found'') \<and>
        s3 = demo_registry None None active \<and> w3 = 0" .
  with run3 have unknown_buyer:
    "buyAsset (demo_client True) (demo_registry None None active) 0 dave ''listing_42_1000'' alice =
       (Inl (External ''account not found''), demo_registry None None active, 0)"
    by simp
  have path_carol: "map_of (listings (demo_registry None None active)) ''listing_42_1000'' = Some (demo_listing None None active) \<and>
      status (demo_listing None None active) = active \<and>
      addr alice = seller (demo_listing None None active) \<and>
      accountInformation (demo_client True) 0 (addr carol) = Inr \<lparr>info_amount = Fin 1000000, info_assets = None\<rparr> \<and>
      (if \<not> hasOptedIn \<lparr>info_amount = Fin 1000000, info_assets = None\<rparr> (assetId (demo_listing None None active))
       then optIn (demo_client True) 0 carol (assetId (demo_listing None None active))
       else (Inr [], 0)) = (Inr ''OPTIN'', 1) \<and>
      hasSufficientBalance (demo_client True) 1 (addr carol) (totalCost_of (demo_listing None None active)) False = Inr False"
    by (simp add: model_defs demo_defs two_fees fl_numeral)
  have total: "totalCost_of (demo_listing None None active) = Fin 5002000"
    by (simp add: model_defs demo_defs two_fees fl_numeral)
  obtain r4 s4 w4 where run4:
    "buyAsset (demo_client True) (demo_registry None None active) 0 carol ''listing_42_1000'' alice =
       (r4, s4, w4)"
    by (rule prod_cases3)
  from buyAsset_sold_only_after_settlement [OF run4, THEN conjunct2, THEN conjunct2, THEN conjunct2, THEN conjunct2, THEN conjunct2, THEN conjunct2, THEN conjunct2, THEN conjunct2, THEN conjunct1, rule_format, OF path_carol]
  have "r4 = Inl (InsufficientBalance (totalCost_of (demo_listing None None active))) \<and>
        s4 = demo_registry None None active \<and> w4 = 1" .
  with run4 total have poor:
    "buyAsset (demo_client True) (demo_registry None None active) 0 carol ''listing_42_1000'' alice =
       (Inl (InsufficientBalance (Fin 5002000)), demo_registry None None active, 1)"
    by simp
  show ?thesis
    by (rule conjI [OF settle_ok conjI [OF bought conjI [OF settle_ko conjI [OF rejected
          conjI [OF no_account conjI [OF unknown_buyer poor]]]]]])
qed
subsection \<open>Status transitions\<close>

text \<open>
  Claim C2, as stated, fails. Bob, who is not the seller, cancels a sold listing: the
  call fails with \<open>'Only seller can cancel listing'\<close>, an unauthorized failure and
  not an invalid-state one, because \<open>cancelListing\<close> compares the seller before it
  looks at the status.
\<close>

theorem cancel_sold_listing_counterexample:
  "map_of (listings (demo_registry None None sold)) ''listing_42_1000'' =
     Some (demo_listing None None sold) \<and>
   status (demo_listing None None sold) = sold \<and>
   cancelListing (demo_registry None None sold) bob ''listing_42_1000'' =
     (Inl OnlySellerCanCancel, demo_registry None None sold) \<and>
   kind OnlySellerCanCancel \<noteq> InvalidState"
  by (simp add: cancelListing_def demo_defs)

text \<open>
  Claim C2, amended. For a listing whose status is \<open>sold\<close> or \<open>cancelled\<close>:
  \<open>buyAsset\<close> fails with the invalid-state error \<open>not active\<close>; \<open>cancelListing\<close>
  fails with the unauthorized error when the caller is not the listing's seller and
  with the invalid-state error otherwise; both leave the registry unchanged.
  Whatever \<open>buyAsset\<close> and \<open>cancelListing\<close> return, every listing id maps to what
  it mapped to before, except that the listing of the call may go from \<open>active\<close> to
  \<open>sold\<close> (by \<open>buyAsset\<close>) or from \<open>active\<close> to \<open>cancelled\<close> (by \<open>cancelListing\<close>).
\<close>

theorem status_transitions_monotonic:
  "(\<forall>l. map_of (listings st) listingId = Some l \<and> (status l = sold \<or> status l = cancelled) \<longrightarrow>
      buyAsset env st w buyer listingId sellerAccount = (Inl (ListingNotActive listingId), st, w) \<and>
      kind (ListingNotActive listingId) = InvalidState \<and>
      cancelListing st seller_acct listingId =
        (Inl (if seller l \<noteq> addr seller_acct then OnlySellerCanCancel else ListingIsNotActive),
         st) \<and>
      kind OnlySellerCanCancel = Unauthorized \<and> kind ListingIsNotActive = InvalidState) \<and>
   (\<forall>r st' w' k.
      buyAsset env st w buyer listingId sellerAccount = (r, st', w') \<longrightarrow>
      map_of (listings st') k = map_of (listings st) k \<or>
      (k = listingId \<and>
       (\<exists>l. map_of (listings st) k = Some l \<and> status l = active \<and>
            map_of (listings st') k = Some (l\<lparr>status := sold\<rparr>)))) \<and>
   (\<forall>u st' k.
      cancelListing st seller_acct listingId = (u, st') \<longrightarrow>
      map_of (listings st') k = map_of (listings st) k \<or>
      (k = listingId \<and>
       (\<exists>l. map_of (listings st) k = Some l \<and> status l = active \<and>
            map_of (listings st') k = Some (l\<lparr>status := cancelled\<rparr>))))"
proof -
  have terminal: "\<forall>l. map_of (listings st) listingId = Some l \<and>
        (status l = sold \<or> status l = cancelled) \<longrightarrow>
      buyAsset env st w buyer listingId sellerAccount = (Inl (ListingNotActive listingId), st, w) \<and>
      kind (ListingNotActive listingId) = InvalidState \<and>
      cancelListing st seller_acct listingId =
        (Inl (if seller l \<noteq> addr seller_acct then OnlySellerCanCancel else ListingIsNotActive),
         st) \<and>
      kind OnlySellerCanCancel = Unauthorized \<and> kind ListingIsNotActive = InvalidState"
    by (auto simp: buyAsset_def cancelListing_def)
  have buy: "\<forall>r st' w' k.
      buyAsset env st w buyer listingId sellerAccount = (r, st', w') \<longrightarrow>
      map_of (listings st') k = map_of (listings st) k \<or>
      (k = listingId \<and>
       (\<exists>l. map_of (listings st) k = Some l \<and> status l = active \<and>
            map_of (listings st') k = Some (l\<lparr>status := sold\<rparr>)))"
  proof (intro allI impI)
    fix r st' w' k
    assume run: "buyAsset env st w buyer listingId sellerAccount = (r, st', w')"
    show "map_of (listings st') k = map_of (listings st) k \<or>
      (k = listingId \<and>
       (\<exists>l. map_of (listings st) k = Some l \<and> status l = active \<and>
            map_of (listings st') k = Some (l\<lparr>status := sold\<rparr>)))"
    proof (cases r)
      case (Inl e)
      with run have "st' = st"
        by (auto simp: buyAsset_def Let_def
                 split: option.splits if_splits sum.splits prod.splits)
      then show ?thesis by simp
    next
      case (Inr txId)
      with run buyAsset_returns_settlement [of env st w buyer listingId sellerAccount txId st' w']
      obtain l where "map_of (listings st) listingId = Some l" and "status l = active"
        and "listings st' = AList.update listingId (l\<lparr>status := sold\<rparr>) (listings st)"
        by auto
      then show ?thesis
        by (simp add: update_conv')
    qed
  qed
  have cancel: "\<forall>u st' k.
      cancelListing st seller_acct listingId = (u, st') \<longrightarrow>
      map_of (listings st') k = map_of (listings st) k \<or>
      (k = listingId \<and>
       (\<exists>l. map_of (listings st) k = Some l \<and> status l = active \<and>
            map_of (listings st') k = Some (l\<lparr>status := cancelled\<rparr>)))"
    by (auto simp: cancelListing_def update_conv' split: option.splits if_splits)
  show ?thesis
    by (rule conjI [OF terminal conjI [OF buy cancel]])
qed

text \<open>A sold listing refuses a second purchase and a cancellation; an active one is cancelled.\<close>

theorem status_transitions_monotonic_witness:
  "buyAsset (demo_client True) (demo_registry None None sold) 0 bob ''listing_42_1000'' alice =
     (Inl (ListingNotActive ''listing_42_1000''), demo_registry None None sold, 0) \<and>
   cancelListing (demo_registry None None sold) alice ''listing_42_1000'' =
     (Inl ListingIsNotActive, demo_registry None None sold) \<and>
   cancelListing (demo_registry None None active) alice ''listing_42_1000'' =
     (Inr (), demo_registry None None cancelled) \<and>
   map_of (listings (demo_registry None None cancelled)) ''listing_42_1000'' =
     Some ((demo_listing None None active)\<lparr>status := cancelled\<rparr>)"
proof -
  note mono = status_transitions_monotonic
    [where env = "demo_client True" and w = 0 and buyer = bob and sellerAccount = alice
       and seller_acct = alice and listingId = "''listing_42_1000''"]
  have stored: "map_of (listings (demo_registry None None sold)) ''listing_42_1000'' =
                  Some (demo_listing None None sold) \<and>
                (status (demo_listing None None sold) = sold \<or>
                 status (demo_listing None None sold) = cancelled)"
    by (simp add: demo_registry_def demo_listing_def)
  note terminal = mono [where st = "demo_registry None None sold", THEN conjunct1, rule_format,
                        OF stored]
  from terminal
  have buy: "buyAsset (demo_client True) (demo_registry None None sold) 0 bob
               ''listing_42_1000'' alice =
             (Inl (ListingNotActive ''listing_42_1000''), demo_registry None None sold, 0)"
    by (rule conjunct1)
  from terminal
  have "cancelListing (demo_registry None None sold) alice ''listing_42_1000'' =
          (Inl (if seller (demo_listing None None sold) \<noteq> addr alice
                then OnlySellerCanCancel else ListingIsNotActive),
           demo_registry None None sold)"
    by simp
  then have again: "cancelListing (demo_registry None None sold) alice ''listing_42_1000'' =
                      (Inl ListingIsNotActive, demo_registry None None sold)"
    by (simp add: demo_listing_def alice_def)
  have run: "cancelListing (demo_registry None None active) alice ''listing_42_1000'' =
               (Inr (), demo_registry None None cancelled)"
    by (simp add: cancelListing_def demo_defs)
  note step = mono [where st = "demo_registry None None active", THEN conjunct2, THEN conjunct2,
                    rule_format, OF run, of "''listing_42_1000''"]
  have changed: "map_of (listings (demo_registry None None cancelled)) ''listing_42_1000'' \<noteq>
                 map_of (listings (demo_registry None None active)) ''listing_42_1000''"
    by (simp add: demo_registry_def demo_listing_def)
  with step
  have "\<exists>l. map_of (listings (demo_registry None None active)) ''listing_42_1000'' = Some l \<and>
            status l = active \<and>
            map_of (listings (demo_registry None None cancelled)) ''listing_42_1000'' =
              Some (l\<lparr>status := cancelled\<rparr>)"
    by simp
  then have after: "map_of (listings (demo_registry None None cancelled)) ''listing_42_1000'' =
                      Some ((demo_listing None None active)\<lparr>status := cancelled\<rparr>)"
    by (auto simp: demo_registry_def)
  show ?thesis
    by (rule conjI [OF buy conjI [OF again conjI [OF run after]]])
qed


subsection \<open>The total cost\<close>






subsection \<open>Listing identifiers\<close>

text \<open>
  Claim C4 fails on the code. The identifier is built from the asset id and the
  clock alone. Two successful calls of \<open>listAsset\<close> for asset 42 that both read the
  time 1000 return the same identifier, and the second listing (7 Algos) replaces the
  first (5 Algos): after two successful calls the registry holds one listing.
\<close>

theorem listAsset_id_collision:
  "listAsset (demo_client True) new_marketplace 0 1000 1000 alice 42 (Fin 5000000) None None =
     (Inr ''listing_42_1000'', demo_registry None None active) \<and>
   length (listings (demo_registry None None active)) = 1 \<and>
   listAsset (demo_client True) (demo_registry None None active) 0 1000 1000 alice 42 (Fin 7000000)
       None None =
     (Inr ''listing_42_1000'',
      \<lparr>listings = [(''listing_42_1000'',
                    (demo_listing None None active)\<lparr>price := Fin 7000000\<rparr>)]\<rparr>) \<and>
   length (listings \<lparr>listings = [(''listing_42_1000'',
                    (demo_listing None None active)\<lparr>price := Fin 7000000\<rparr>)]\<rparr>) = 1"
  by (simp add: model_defs demo_defs listingId_of_def show_int_def digits.simps Let_def)

text \<open>
  The registry grows by one exactly when the identifier is not yet a key.
\<close>

lemma length_update:
  "length (AList.update k v al) = (if k \<in> fst ` set al then length al else Suc (length al))"
  by (induction al) auto

lemma listAsset_size:
  assumes "listAsset env st w now now' seller_acct asset p rr rp = (Inr lid, st')"
  shows "lid = listingId_of asset now \<and>
         length (listings st') =
           (if lid \<in> fst ` set (listings st) then length (listings st)
            else Suc (length (listings st)))"
proof -
  from assms have lid: "lid = listingId_of asset now"
    and st': "listings st' = AList.update lid
        \<lparr>id_listing = lid, assetId = asset, seller = addr seller_acct, price = p,
         royaltyRecipient = rr, royaltyPercentage = rp, createdAt = now', status = active\<rparr>
        (listings st)"
    by (auto simp: listAsset_def Let_def split: if_splits sum.splits)
  from lid st' show ?thesis
    by (simp add: length_update)
qed

subsection \<open>The royalty fields of a stored listing\<close>

text \<open>
  Claim C5, as stated, fails. Alice lists asset 42 with a royalty percentage of 5 and
  no royalty recipient. The call succeeds and the stored listing has the percentage
  without the recipient.
\<close>

theorem listAsset_one_royalty_field_counterexample:
  "listAsset (demo_client True) new_marketplace 0 1000 1000 alice 42 (Fin 5000000) None (Some (Fin 5)) =
     (Inr ''listing_42_1000'', demo_registry None (Some (Fin 5)) active) \<and>
   map_of (listings (demo_registry None (Some (Fin 5)) active)) ''listing_42_1000'' =
     Some (demo_listing None (Some (Fin 5)) active) \<and>
   royaltyRecipient (demo_listing None (Some (Fin 5)) active) = None \<and>
   royaltyPercentage (demo_listing None (Some (Fin 5)) active) = Some (Fin 5)"
  by (simp add: demo_registry_listed) (simp add: demo_registry_def demo_listing_def)

text \<open>
  Claim C5, amended. \<open>listAsset\<close> stores the two royalty fields exactly as they are
  supplied, be it both, neither or one of them, and a failing call stores nothing.
  It fails with an invalid-argument error when a percentage other than 0 and \<open>NaN\<close>
  lies outside 0 to 100, or when a non-empty recipient is not a valid address; it does
  not compare
  the presence of the two fields, so with a price that passes the price check, a
  percentage and a recipient that pass these two checks (each possibly absent) and a
  seller who holds the asset, the call succeeds. A listing that lacks one of the two fields is charged
  no royalty.
\<close>

theorem listAsset_stores_royalty_fields_as_given:
  "(\<forall>e st'. listAsset env st w now now' seller_acct asset p rr rp = (Inl e, st') \<longrightarrow> st' = st) \<and>
   (\<forall>lid st'. listAsset env st w now now' seller_acct asset p rr rp = (Inr lid, st') \<longrightarrow>
      (\<exists>l. map_of (listings st') lid = Some l \<and>
           royaltyRecipient l = rr \<and> royaltyPercentage l = rp)) \<and>
   (\<not> js_le p (Fin 0) \<and>
      (\<exists>pct. rp = Some pct \<and> pct \<noteq> NaN \<and> pct \<noteq> Fin 0 \<and>
             (js_lt pct (Fin 0) \<or> js_gt pct (Fin 100))) \<longrightarrow>
      listAsset env st w now now' seller_acct asset p rr rp = (Inl RoyaltyPercentageRange, st) \<and>
      kind RoyaltyPercentageRange = InvalidArgument) \<and>
   (\<forall>rcp. \<not> js_le p (Fin 0) \<and>
      (rp = None \<or>
       (\<exists>pct. rp = Some pct \<and> (pct = NaN \<or> js_le (Fin 0) pct \<and> js_le pct (Fin 100)))) \<and>
      rr = Some rcp \<and> rcp \<noteq> [] \<and> \<not> isValidAddress env rcp \<longrightarrow>
      listAsset env st w now now' seller_acct asset p rr rp =
        (Inl (InvalidRoyaltyRecipient rcp), st) \<and>
      kind (InvalidRoyaltyRecipient rcp) = InvalidArgument) \<and>
   (\<forall>h. \<not> js_le p (Fin 0) \<and>
      (rp = None \<or>
       (\<exists>pct. rp = Some pct \<and> (pct = NaN \<or> js_le (Fin 0) pct \<and> js_le pct (Fin 100)))) \<and>
      (rr = None \<or> rr = Some [] \<or> (\<exists>rcp. rr = Some rcp \<and> isValidAddress env rcp)) \<and>
      getAssetHolding env w (addr seller_acct) (Some asset) = Inr h \<and> \<not> no_holding h \<longrightarrow>
      (\<exists>st'. listAsset env st w now now' seller_acct asset p rr rp =
               (Inr (listingId_of asset now), st'))) \<and>
   (\<forall>l. royaltyRecipient l = None \<or> royaltyPercentage l = None \<longrightarrow>
        royaltyAmount_of l = Fin 0)"
proof -
  have in_range: "\<not> (js_lt pct (Fin 0) \<or> js_gt pct (Fin 100))"
    if "pct = NaN \<or> js_le (Fin 0) pct \<and> js_le pct (Fin 100)" for pct
    using that by (cases pct) auto
  have failed: "\<forall>e st'. listAsset env st w now now' seller_acct asset p rr rp = (Inl e, st') \<longrightarrow>
                  st' = st"
    by (auto simp: listAsset_def Let_def split: if_splits sum.splits)
  have stored: "\<forall>lid st'. listAsset env st w now now' seller_acct asset p rr rp = (Inr lid, st') \<longrightarrow>
      (\<exists>l. map_of (listings st') lid = Some l \<and>
           royaltyRecipient l = rr \<and> royaltyPercentage l = rp)"
    by (auto simp: listAsset_def Let_def update_conv' split: if_splits sum.splits)
  have range: "\<not> js_le p (Fin 0) \<and>
      (\<exists>pct. rp = Some pct \<and> pct \<noteq> NaN \<and> pct \<noteq> Fin 0 \<and>
             (js_lt pct (Fin 0) \<or> js_gt pct (Fin 100))) \<longrightarrow>
      listAsset env st w now now' seller_acct asset p rr rp = (Inl RoyaltyPercentageRange, st) \<and>
      kind RoyaltyPercentageRange = InvalidArgument"
    by (auto simp: listAsset_def truthy_num_def)
  have recipient: "\<forall>rcp. \<not> js_le p (Fin 0) \<and>
      (rp = None \<or>
       (\<exists>pct. rp = Some pct \<and> (pct = NaN \<or> js_le (Fin 0) pct \<and> js_le pct (Fin 100)))) \<and>
      rr = Some rcp \<and> rcp \<noteq> [] \<and> \<not> isValidAddress env rcp \<longrightarrow>
      listAsset env st w now now' seller_acct asset p rr rp =
        (Inl (InvalidRoyaltyRecipient rcp), st) \<and>
      kind (InvalidRoyaltyRecipient rcp) = InvalidArgument"
    using in_range
    by (cases rp) (auto simp: listAsset_def truthy_num_def truthy_str_def)
  have accepted: "\<forall>h. \<not> js_le p (Fin 0) \<and>
      (rp = None \<or>
       (\<exists>pct. rp = Some pct \<and> (pct = NaN \<or> js_le (Fin 0) pct \<and> js_le pct (Fin 100)))) \<and>
      (rr = None \<or> rr = Some [] \<or> (\<exists>rcp. rr = Some rcp \<and> isValidAddress env rcp)) \<and>
      getAssetHolding env w (addr seller_acct) (Some asset) = Inr h \<and> \<not> no_holding h \<longrightarrow>
      (\<exists>st'. listAsset env st w now now' seller_acct asset p rr rp =
               (Inr (listingId_of asset now), st'))"
    using in_range
    by (cases rp; cases rr) (auto simp: listAsset_def Let_def truthy_num_def truthy_str_def)
  have free: "\<forall>l. royaltyRecipient l = None \<or> royaltyPercentage l = None \<longrightarrow>
                royaltyAmount_of l = Fin 0"
    by (auto simp: royaltyAmount_of_def truthy_num_def truthy_str_def)
  show ?thesis
    by (rule conjI [OF failed conjI [OF stored conjI [OF range conjI [OF recipient
          conjI [OF accepted free]]]]])
qed

text \<open>
  A percentage alone is accepted and earns no royalty; the percentage 110 and the
  recipient \<open>MALLORY\<close>, unknown to the ledger, are refused.
\<close>

theorem listAsset_stores_royalty_fields_as_given_witness:
  "(\<exists>st'. listAsset (demo_client True) new_marketplace 0 1000 1000 alice 42 (Fin 5000000)
            None (Some (Fin 5)) = (Inr (listingId_of 42 1000), st')) \<and>
   listAsset (demo_client True) new_marketplace 0 1000 1000 alice 42 (Fin 5000000)
     None (Some (Fin 110)) = (Inl RoyaltyPercentageRange, new_marketplace) \<and>
   listAsset (demo_client True) new_marketplace 0 1000 1000 alice 42 (Fin 5000000)
     (Some ''MALLORY'') (Some (Fin 5)) =
     (Inl (InvalidRoyaltyRecipient ''MALLORY''), new_marketplace) \<and>
   royaltyAmount_of (demo_listing None (Some (Fin 5)) active) = Fin 0"
proof -
  note given = listAsset_stores_royalty_fields_as_given
    [where env = "demo_client True" and st = new_marketplace and w = 0 and now = 1000
       and now' = 1000 and seller_acct = alice and asset = 42 and p = "Fin 5000000"]
  have holds: "\<not> js_le (Fin 5000000) (Fin 0) \<and>
      (Some (Fin 5) = None \<or>
       (\<exists>pct. Some (Fin 5) = Some pct \<and>
              (pct = NaN \<or> js_le (Fin 0) pct \<and> js_le pct (Fin 100)))) \<and>
      (None = None \<or> None = Some [] \<or>
        (\<exists>rcp. None = Some rcp \<and> isValidAddress (demo_client True) rcp)) \<and>
      getAssetHolding (demo_client True) 0 (addr alice) (Some 42) =
        Inr (OneHolding (Some \<lparr>asset_id = 42, holding_amount = Fin 1\<rparr>)) \<and>
      \<not> no_holding (OneHolding (Some \<lparr>asset_id = 42, holding_amount = Fin 1\<rparr>))"
    by (simp add: getAssetHolding_def no_holding_def js_strict_eq_def demo_defs)
  from given [where rr = None and rp = "Some (Fin 5)", THEN conjunct2, THEN conjunct2,
              THEN conjunct2, THEN conjunct2, THEN conjunct1, rule_format, OF holds]
  have one: "\<exists>st'. listAsset (demo_client True) new_marketplace 0 1000 1000 alice 42
            (Fin 5000000) None (Some (Fin 5)) = (Inr (listingId_of 42 1000), st')" .
  have out: "\<not> js_le (Fin 5000000) (Fin 0) \<and>
      (\<exists>pct. Some (Fin 110) = Some pct \<and> pct \<noteq> NaN \<and> pct \<noteq> Fin 0 \<and>
             (js_lt pct (Fin 0) \<or> js_gt pct (Fin 100)))"
    by simp
  from given [where rr = None and rp = "Some (Fin 110)", THEN conjunct2, THEN conjunct2,
              THEN conjunct1, rule_format, OF out]
  have range: "listAsset (demo_client True) new_marketplace 0 1000 1000 alice 42 (Fin 5000000)
     None (Some (Fin 110)) = (Inl RoyaltyPercentageRange, new_marketplace)"
    by (rule conjunct1)
  have bad: "\<not> js_le (Fin 5000000) (Fin 0) \<and>
      (Some (Fin 5) = None \<or>
       (\<exists>pct. Some (Fin 5) = Some pct \<and>
              (pct = NaN \<or> js_le (Fin 0) pct \<and> js_le pct (Fin 100)))) \<and>
      Some ''MALLORY'' = Some ''MALLORY'' \<and> ''MALLORY'' \<noteq> [] \<and>
      \<not> isValidAddress (demo_client True) ''MALLORY''"
    by (simp add: demo_client_def)
  from given [where rr = "Some ''MALLORY''" and rp = "Some (Fin 5)", THEN conjunct2,
              THEN conjunct2, THEN conjunct2, THEN conjunct1, rule_format, OF bad]
  have recipient: "listAsset (demo_client True) new_marketplace 0 1000 1000 alice 42
     (Fin 5000000) (Some ''MALLORY'') (Some (Fin 5)) =
     (Inl (InvalidRoyaltyRecipient ''MALLORY''), new_marketplace)"
    by (rule conjunct1)
  have "royaltyRecipient (demo_listing None (Some (Fin 5)) active) = None \<or>
        royaltyPercentage (demo_listing None (Some (Fin 5)) active) = None"
    by (simp add: demo_listing_def)
  from given [where rr = None and rp = "Some (Fin 5)", THEN conjunct2, THEN conjunct2,
              THEN conjunct2, THEN conjunct2, THEN conjunct2, rule_format, OF this]
  have free: "royaltyAmount_of (demo_listing None (Some (Fin 5)) active) = Fin 0" .
  show ?thesis
    by (rule conjI [OF one conjI [OF range conjI [OF recipient free]]])
qed

subsection \<open>The queries\<close>

text \<open>
  Claim C6, as stated, fails. \<open>calculateTotalCost\<close> throws
  \<open>`Listing ${listingId} not found`\<close> for an identifier that is not stored.
\<close>

theorem calculateTotalCost_unknown_id_counterexample:
  "map_of (listings (demo_registry None None active)) ''listing_7_7'' = None \<and>
   calculateTotalCost (demo_registry None None active) ''listing_7_7'' =
     Inl (ListingNotFound ''listing_7_7'')"
  by (simp add: calculateTotalCost_def demo_registry_def)

text \<open>
  Claim C6, amended. The five queries read the registry and return an answer only:
  in the model each is a function of the registry, so the registry after a query is
  the registry before it. \<open>getListing\<close> answers with the stored listing or with
  nothing (\<open>undefined\<close>) for an unknown identifier; \<open>getActiveListings\<close>,
  \<open>getListingsBySeller\<close> and \<open>getListingsByAsset\<close> answer with the stored listings
  that match, an empty list when none does. These four never fail.
  \<open>calculateTotalCost\<close> fails with the not-found error exactly for an identifier that
  is not stored and answers with the total for every stored one.
\<close>

theorem queries_fail_only_for_unknown_cost:
  "getListing st listingId = map_of (listings st) listingId \<and>
   (listingId \<notin> fst ` set (listings st) \<longrightarrow> getListing st listingId = None) \<and>
   (getActiveListings st = [] \<longleftrightarrow> (\<forall>l \<in> snd ` set (listings st). status l \<noteq> active)) \<and>
   (getListingsBySeller st a = [] \<longleftrightarrow> (\<forall>l \<in> snd ` set (listings st). seller l \<noteq> a)) \<and>
   (getListingsByAsset st i = [] \<longleftrightarrow> (\<forall>l \<in> snd ` set (listings st). assetId l \<noteq> i)) \<and>
   set (getActiveListings st) = {l \<in> snd ` set (listings st). status l = active} \<and>
   set (getListingsBySeller st a) = {l \<in> snd ` set (listings st). seller l = a} \<and>
   set (getListingsByAsset st i) = {l \<in> snd ` set (listings st). assetId l = i} \<and>
   (listingId \<notin> fst ` set (listings st) \<longrightarrow>
      calculateTotalCost st listingId = Inl (ListingNotFound listingId) \<and>
      kind (ListingNotFound listingId) = NotFound) \<and>
   (listingId \<in> fst ` set (listings st) \<longrightarrow>
      (\<exists>l. map_of (listings st) listingId = Some l \<and>
           calculateTotalCost st listingId =
             Inr (js_add
                    (if truthy_str (royaltyRecipient l) \<and> truthy_num (royaltyPercentage l)
                     then js_add (price l)
                            (Math_floor
                               (js_div (js_mul (price l) (the (royaltyPercentage l)))
                                  (Fin 100)))
                     else price l)
                    (js_mul ALGORAND_MIN_TX_FEE (Fin 2)))))"
proof -
  have get: "getListing st listingId = map_of (listings st) listingId"
    by (simp add: getListing_def)
  have unknown: "listingId \<notin> fst ` set (listings st) \<longrightarrow> getListing st listingId = None"
    by (simp add: getListing_def map_of_eq_None_iff)
  have act0: "getActiveListings st = [] \<longleftrightarrow> (\<forall>l \<in> snd ` set (listings st). status l \<noteq> active)"
    by (auto simp: getActiveListings_def filter_empty_conv)
  have sel0: "getListingsBySeller st a = [] \<longleftrightarrow> (\<forall>l \<in> snd ` set (listings st). seller l \<noteq> a)"
    by (auto simp: getListingsBySeller_def filter_empty_conv)
  have ast0: "getListingsByAsset st i = [] \<longleftrightarrow> (\<forall>l \<in> snd ` set (listings st). assetId l \<noteq> i)"
    by (auto simp: getListingsByAsset_def filter_empty_conv)
  have act: "set (getActiveListings st) = {l \<in> snd ` set (listings st). status l = active}"
    by (auto simp: getActiveListings_def)
  have sel: "set (getListingsBySeller st a) = {l \<in> snd ` set (listings st). seller l = a}"
    by (auto simp: getListingsBySeller_def)
  have ast: "set (getListingsByAsset st i) = {l \<in> snd ` set (listings st). assetId l = i}"
    by (auto simp: getListingsByAsset_def)
  have cost_unknown: "listingId \<notin> fst ` set (listings st) \<longrightarrow>
      calculateTotalCost st listingId = Inl (ListingNotFound listingId) \<and>
      kind (ListingNotFound listingId) = NotFound"
  proof
    assume "listingId \<notin> fst ` set (listings st)"
    then have "map_of (listings st) listingId = None"
      by (simp add: map_of_eq_None_iff)
    then show "calculateTotalCost st listingId = Inl (ListingNotFound listingId) \<and>
      kind (ListingNotFound listingId) = NotFound"
      by (simp add: calculateTotalCost_def)
  qed
  have cost_known: "listingId \<in> fst ` set (listings st) \<longrightarrow>
      (\<exists>l. map_of (listings st) listingId = Some l \<and>
           calculateTotalCost st listingId =
             Inr (js_add
                    (if truthy_str (royaltyRecipient l) \<and> truthy_num (royaltyPercentage l)
                     then js_add (price l)
                            (Math_floor
                               (js_div (js_mul (price l) (the (royaltyPercentage l)))
                                  (Fin 100)))
                     else price l)
                    (js_mul ALGORAND_MIN_TX_FEE (Fin 2))))"
  proof
    assume "listingId \<in> fst ` set (listings st)"
    then have "map_of (listings st) listingId \<noteq> None"
      by (simp add: map_of_eq_None_iff)
    then obtain l where "map_of (listings st) listingId = Some l"
      by auto
    then show "\<exists>l. map_of (listings st) listingId = Some l \<and>
           calculateTotalCost st listingId =
             Inr (js_add
                    (if truthy_str (royaltyRecipient l) \<and> truthy_num (royaltyPercentage l)
                     then js_add (price l)
                            (Math_floor
                               (js_div (js_mul (price l) (the (royaltyPercentage l)))
                                  (Fin 100)))
                     else price l)
                    (js_mul ALGORAND_MIN_TX_FEE (Fin 2)))"
      by (simp add: calculateTotalCost_def Let_def)
  qed
  show ?thesis
    by (rule conjI [OF get conjI [OF unknown conjI [OF act0 conjI [OF sel0 conjI [OF ast0
          conjI [OF act conjI [OF sel conjI [OF ast conjI [OF cost_unknown cost_known]]]]]]]]])
qed

text \<open>An unknown identifier and a stored one.\<close>

theorem queries_fail_only_for_unknown_cost_witness:
  "getListing (demo_registry None None active) ''listing_7_7'' = None \<and>
   calculateTotalCost (demo_registry None None active) ''listing_7_7'' =
     Inl (ListingNotFound ''listing_7_7'') \<and>
   calculateTotalCost (demo_registry None None active) ''listing_42_1000'' = Inr (Fin 5002000)"
proof -
  note queries = queries_fail_only_for_unknown_cost
    [where st = "demo_registry None None active"]
  have unknown: "''listing_7_7'' \<notin> fst ` set (listings (demo_registry None None active))"
    by (simp add: demo_registry_def)
  have known: "''listing_42_1000'' \<in> fst ` set (listings (demo_registry None None active))"
    by (simp add: demo_registry_def)
  from queries [where listingId = "''listing_7_7''", THEN conjunct2, THEN conjunct1,
                rule_format, OF unknown]
  have none: "getListing (demo_registry None None active) ''listing_7_7'' = None" .
  from queries [where listingId = "''listing_7_7''", THEN conjunct2, THEN conjunct2,
                THEN conjunct2, THEN conjunct2, THEN conjunct2, THEN conjunct2, THEN conjunct2,
                THEN conjunct2, THEN conjunct1, rule_format, OF unknown]
  have fails: "calculateTotalCost (demo_registry None None active) ''listing_7_7'' =
                 Inl (ListingNotFound ''listing_7_7'')"
    by (rule conjunct1)
  from queries [where listingId = "''listing_42_1000''", THEN conjunct2, THEN conjunct2,
                THEN conjunct2, THEN conjunct2, THEN conjunct2, THEN conjunct2, THEN conjunct2,
                THEN conjunct2, THEN conjunct2, rule_format, OF known]
  obtain l where
    l: "map_of (listings (demo_registry None None active)) ''listing_42_1000'' = Some l" and
    c: "calculateTotalCost (demo_registry None None active) ''listing_42_1000'' =
          Inr (js_add
                 (if truthy_str (royaltyRecipient l) \<and> truthy_num (royaltyPercentage l)
                  then js_add (price l)
                         (Math_floor
                            (js_div (js_mul (price l) (the (royaltyPercentage l))) (Fin 100)))
                  else price l)
                 (js_mul ALGORAND_MIN_TX_FEE (Fin 2)))"
    by (elim exE conjE)
  from l have "l = demo_listing None None active"
    by (simp add: demo_registry_def)
  with c have cost: "calculateTotalCost (demo_registry None None active) ''listing_42_1000'' =
                       Inr (Fin 5002000)"
    by (simp add: demo_listing_def truthy_str_def two_fees fl_numeral)
  show ?thesis
    by (rule conjI [OF none conjI [OF fails cost]])
qed


subsection \<open>The settlement group\<close>




subsection \<open>The royalty charged\<close>

text \<open>
  Claim C8 says that every purchase of a listing with both royalty fields present
  charges \<open>floor(price * royaltyPercentage / 100)\<close> by exact integer floor
  division. Two purchases on the concrete ledger show otherwise.

  Alice lists asset 42 for 100000000000001 microAlgos with a royalty of 99 percent
  to Carol, and Erin buys it. The product \<open>100000000000001 * 99\<close> is
  9900000000000099, above \<open>2^53\<close>, and rounds to the double 9900000000000100; the
  royalty leg of the submitted group carries 99000000000001 microAlgos, one more
  than the exact quotient 99000000000000.

  Alice lists asset 42 for 5 Algos with the empty string as royalty recipient and
  5 percent, and Bob buys it. Both fields are stored, the empty string is falsy, the
  royalty is 0 and the group has two legs; the exact quotient is 250000.
\<close>

theorem royalty_exact_floor_counterexample:
  "listAsset (demo_client True) new_marketplace 0 1000 1000 alice 42 (Fin 100000000000001)
     (Some ''CAROL'') (Some (Fin 99)) =
     (Inr ''listing_42_1000'',
      demo_registry_at (Fin 100000000000001) (Some ''CAROL'') (Some (Fin 99)) active) \<and>
   buyAsset (demo_client True)
     (demo_registry_at (Fin 100000000000001) (Some ''CAROL'') (Some (Fin 99)) active) 0 erin
     ''listing_42_1000'' alice =
     (Inr ''TXID'',
      demo_registry_at (Fin 100000000000001) (Some ''CAROL'') (Some (Fin 99)) sold, 1) \<and>
   royaltyAmount_of (demo_listing_at (Fin 100000000000001) (Some ''CAROL'') (Some (Fin 99)) active) =
     Fin 99000000000001 \<and>
   purchaseTransactions (demo_client True) demo_params erin alice 42 (Fin 100000000000001)
     (Some ''CAROL'')
     (Some (royaltyAmount_of
        (demo_listing_at (Fin 100000000000001) (Some ''CAROL'') (Some (Fin 99)) active))) =
     Inr [paymentTxn ''ERIN'' ''ALICE'' (Fin 100000000000001) None demo_params,
          assetTransferTxn ''ALICE'' ''ERIN'' 42 1 demo_params,
          paymentTxn ''ERIN'' ''CAROL'' (Fin 99000000000001) (Some ''Royalty payment'')
            demo_params] \<and>
   100000000000001 * 99 div 100 = (99000000000000 :: int) \<and>
   listAsset (demo_client True) new_marketplace 0 1000 1000 alice 42 (Fin 5000000)
     (Some '''') (Some (Fin 5)) =
     (Inr ''listing_42_1000'', demo_registry (Some '''') (Some (Fin 5)) active) \<and>
   buyAsset (demo_client True) (demo_registry (Some '''') (Some (Fin 5)) active) 0 bob
     ''listing_42_1000'' alice =
     (Inr ''TXID'', demo_registry (Some '''') (Some (Fin 5)) sold, 1) \<and>
   royaltyAmount_of (demo_listing (Some '''') (Some (Fin 5)) active) = Fin 0 \<and>
   purchaseTransactions (demo_client True) demo_params bob alice 42 (Fin 5000000) (Some '''')
     (Some (royaltyAmount_of (demo_listing (Some '''') (Some (Fin 5)) active))) =
     Inr [paymentTxn ''BOB'' ''ALICE'' (Fin 5000000) None demo_params,
          assetTransferTxn ''ALICE'' ''BOB'' 42 1 demo_params] \<and>
   5000000 * 5 div 100 = (250000 :: int)"
proof -
  have listed: "listAsset (demo_client True) new_marketplace 0 1000 1000 alice 42
     (Fin 100000000000001) (Some ''CAROL'') (Some (Fin 99)) =
     (Inr ''listing_42_1000'',
      demo_registry_at (Fin 100000000000001) (Some ''CAROL'') (Some (Fin 99)) active)"
    by (simp add: model_defs demo_defs listingId_of_def show_int_def digits.simps Let_def)
  have royalty: "royaltyAmount_of
      (demo_listing_at (Fin 100000000000001) (Some ''CAROL'') (Some (Fin 99)) active) =
     Fin 99000000000001"
    by (simp add: royaltyAmount_of_def truthy_str_def truthy_num_def demo_listing_at_def
                  demo_listing_def fl_defs)
  have legs: "purchaseTransactions (demo_client True) demo_params erin alice 42
     (Fin 100000000000001) (Some ''CAROL'') (Some (Fin 99000000000001)) =
     Inr [paymentTxn ''ERIN'' ''ALICE'' (Fin 100000000000001) None demo_params,
          assetTransferTxn ''ALICE'' ''ERIN'' 42 1 demo_params,
          paymentTxn ''ERIN'' ''CAROL'' (Fin 99000000000001) (Some ''Royalty payment'')
            demo_params]"
    by (simp add: purchaseTransactions_def makePaymentTxn_def makeAssetTransferTxn_def
                  paymentTxn_def assetTransferTxn_def truthy_str_def truthy_num_def
                  demo_client_def demo_amount_ok_def erin_def alice_def)
  have bought: "buyAsset (demo_client True)
     (demo_registry_at (Fin 100000000000001) (Some ''CAROL'') (Some (Fin 99)) active) 0 erin
     ''listing_42_1000'' alice =
     (Inr ''TXID'',
      demo_registry_at (Fin 100000000000001) (Some ''CAROL'') (Some (Fin 99)) sold, 1)"
    by (simp add: model_defs demo_defs two_fees fl_defs)
  have exact: "100000000000001 * 99 div 100 = (99000000000000 :: int)"
    by simp
  have listed0: "listAsset (demo_client True) new_marketplace 0 1000 1000 alice 42 (Fin 5000000)
     (Some '''') (Some (Fin 5)) =
     (Inr ''listing_42_1000'', demo_registry (Some '''') (Some (Fin 5)) active)"
    by (simp add: model_defs demo_defs listingId_of_def show_int_def digits.simps Let_def)
  have royalty0: "royaltyAmount_of (demo_listing (Some '''') (Some (Fin 5)) active) = Fin 0"
    by (simp add: royaltyAmount_of_def truthy_str_def demo_listing_def)
  have bought0: "buyAsset (demo_client True) (demo_registry (Some '''') (Some (Fin 5)) active) 0
     bob ''listing_42_1000'' alice =
     (Inr ''TXID'', demo_registry (Some '''') (Some (Fin 5)) sold, 1)"
    by (simp add: model_defs demo_defs two_fees fl_numeral Let_def)
  have legs0: "purchaseTransactions (demo_client True) demo_params bob alice 42 (Fin 5000000)
     (Some '''') (Some (Fin 0)) =
     Inr [paymentTxn ''BOB'' ''ALICE'' (Fin 5000000) None demo_params,
          assetTransferTxn ''ALICE'' ''BOB'' 42 1 demo_params]"
    by (simp add: purchaseTransactions_def makePaymentTxn_def makeAssetTransferTxn_def
                  paymentTxn_def assetTransferTxn_def truthy_str_def truthy_num_def
                  demo_client_def demo_amount_ok_def bob_def alice_def)
  have exact0: "5000000 * 5 div 100 = (250000 :: int)"
    by simp
  show ?thesis
    unfolding royalty royalty0
    by (rule conjI [OF listed conjI [OF bought conjI [OF refl conjI [OF legs conjI [OF exact
          conjI [OF listed0 conjI [OF bought0 conjI [OF refl conjI [OF legs0 exact0]]]]]]]]])
qed

text \<open>
  Claim C8, amended. The royalty of a listing is \<open>0\<close> unless its recipient is a
  non-empty string and its percentage is neither \<open>0\<close> nor \<open>NaN\<close>. For a listing with
  a non-empty recipient, an integer price \<open>p\<close> and an integer percentage \<open>c\<close> with
  \<open>0 \<le> p * c < 2^53\<close>, the royalty is the exact integer quotient
  \<open>p * c div 100\<close>; above \<open>2^53\<close> the product is rounded first. A purchase that
  returns a transaction id has submitted a signed group whose first leg pays the
  price to the seller, whose second leg transfers one unit to the buyer, and whose
  third leg, present exactly when the recipient is non-empty and the royalty is
  positive, pays this royalty to the recipient.
\<close>

theorem buyAsset_royalty_charged:
  "(\<forall>listing p c r.
      price listing = Fin (of_int p) \<and> royaltyPercentage listing = Some (Fin (of_int c)) \<and>
      royaltyRecipient listing = Some r \<and> r \<noteq> [] \<and> 0 \<le> p * c \<and> p * c < 2 ^ 53 \<longrightarrow>
      royaltyAmount_of listing = Fin (of_int (p * c div 100))) \<and>
   (\<forall>listing.
      royaltyRecipient listing = None \<or> royaltyRecipient listing = Some [] \<or>
      royaltyPercentage listing = None \<or> royaltyPercentage listing = Some (Fin 0) \<or>
      royaltyPercentage listing = Some NaN \<longrightarrow>
      royaltyAmount_of listing = Fin 0) \<and>
   (\<forall>txId st' w'.
      buyAsset env st w buyer listingId sellerAccount = (Inr txId, st', w') \<longrightarrow>
      (\<exists>listing info opt w0 signed w1.
         map_of (listings st) listingId = Some listing \<and>
         accountInformation env w (addr buyer) = Inr info \<and>
         (if \<not> hasOptedIn info (assetId listing)
          then optIn env w buyer (assetId listing) else (Inr [], w)) = (Inr opt, w0) \<and>
         sendRawTransaction env w0 signed = (Inr txId, w1) \<and>
         waitForConfirmation env w1 txId 4 = (Inr (), w') \<and>
         map (\<lambda>s. (txn_type (signed_txn s), txn_from (signed_txn s), txn_to (signed_txn s),
                    txn_amount (signed_txn s))) signed =
           [(pay, addr buyer, seller listing, Number (price listing)),
            (axfer, seller listing, addr buyer, BigInt 1)] @
           (if (\<exists>r. royaltyRecipient listing = Some r \<and> r \<noteq> []) \<and>
               js_gt (royaltyAmount_of listing) (Fin 0)
            then [(pay, addr buyer, the (royaltyRecipient listing),
                   Number (royaltyAmount_of listing))]
            else [])))"
proof -
  have exact: "\<forall>listing p c r.
      price listing = Fin (of_int p) \<and> royaltyPercentage listing = Some (Fin (of_int c)) \<and>
      royaltyRecipient listing = Some r \<and> r \<noteq> [] \<and> 0 \<le> p * c \<and> p * c < 2 ^ 53 \<longrightarrow>
      royaltyAmount_of listing = Fin (of_int (p * c div 100))"
    using royaltyAmount_of_int by blast
  have none: "\<forall>listing.
      royaltyRecipient listing = None \<or> royaltyRecipient listing = Some [] \<or>
      royaltyPercentage listing = None \<or> royaltyPercentage listing = Some (Fin 0) \<or>
      royaltyPercentage listing = Some NaN \<longrightarrow>
      royaltyAmount_of listing = Fin 0"
    by (auto simp: royaltyAmount_of_def truthy_str_def truthy_num_def)
  have charged: "\<forall>txId st' w'.
      buyAsset env st w buyer listingId sellerAccount = (Inr txId, st', w') \<longrightarrow>
      (\<exists>listing info opt w0 signed w1.
         map_of (listings st) listingId = Some listing \<and>
         accountInformation env w (addr buyer) = Inr info \<and>
         (if \<not> hasOptedIn info (assetId listing)
          then optIn env w buyer (assetId listing) else (Inr [], w)) = (Inr opt, w0) \<and>
         sendRawTransaction env w0 signed = (Inr txId, w1) \<and>
         waitForConfirmation env w1 txId 4 = (Inr (), w') \<and>
         map (\<lambda>s. (txn_type (signed_txn s), txn_from (signed_txn s), txn_to (signed_txn s),
                    txn_amount (signed_txn s))) signed =
           [(pay, addr buyer, seller listing, Number (price listing)),
            (axfer, seller listing, addr buyer, BigInt 1)] @
           (if (\<exists>r. royaltyRecipient listing = Some r \<and> r \<noteq> []) \<and>
               js_gt (royaltyAmount_of listing) (Fin 0)
            then [(pay, addr buyer, the (royaltyRecipient listing),
                   Number (royaltyAmount_of listing))]
            else []))"
  proof (intro allI impI)
    fix txId st' w'
    assume run: "buyAsset env st w buyer listingId sellerAccount = (Inr txId, st', w')"
    from buyAsset_returns_settlement [OF run]
    obtain listing info opt w0 where
      found: "map_of (listings st) listingId = Some listing" and
      owner: "addr sellerAccount = seller listing" and
      info: "accountInformation env w (addr buyer) = Inr info" and
      opted: "(if \<not> hasOptedIn info (assetId listing)
               then optIn env w buyer (assetId listing) else (Inr [], w)) = (Inr opt, w0)" and
      settled: "marketplacePurchase env w0 buyer sellerAccount (assetId listing)
                  (price listing) (royaltyRecipient listing)
                  (Some (royaltyAmount_of listing)) = (Inr txId, w')"
      by (elim exE conjE)
    from marketplacePurchase_submitted_legs [OF settled]
    obtain signed w1 where
      sent: "sendRawTransaction env w0 signed = (Inr txId, w1)" and
      confirmed: "waitForConfirmation env w1 txId 4 = (Inr (), w')" and
      legs: "map (\<lambda>s. (txn_type (signed_txn s), txn_from (signed_txn s),
                        txn_to (signed_txn s), txn_amount (signed_txn s))) signed =
             [(pay, addr buyer, addr sellerAccount, Number (price listing)),
              (axfer, addr sellerAccount, addr buyer, BigInt 1)] @
             (if \<exists>r a. royaltyRecipient listing = Some r \<and> r \<noteq> [] \<and>
                        Some (royaltyAmount_of listing) = Some a \<and> js_gt a (Fin 0)
              then [(pay, addr buyer, the (royaltyRecipient listing),
                     Number (the (Some (royaltyAmount_of listing))))]
              else [])"
      by (elim exE conjE)
    have cond: "(\<exists>r a. royaltyRecipient listing = Some r \<and> r \<noteq> [] \<and>
                   Some (royaltyAmount_of listing) = Some a \<and> js_gt a (Fin 0)) =
                ((\<exists>r. royaltyRecipient listing = Some r \<and> r \<noteq> []) \<and>
                 js_gt (royaltyAmount_of listing) (Fin 0))"
      by auto
    from legs have legs':
      "map (\<lambda>s. (txn_type (signed_txn s), txn_from (signed_txn s),
                  txn_to (signed_txn s), txn_amount (signed_txn s))) signed =
         [(pay, addr buyer, seller listing, Number (price listing)),
          (axfer, seller listing, addr buyer, BigInt 1)] @
         (if (\<exists>r. royaltyRecipient listing = Some r \<and> r \<noteq> []) \<and>
             js_gt (royaltyAmount_of listing) (Fin 0)
          then [(pay, addr buyer, the (royaltyRecipient listing),
                 Number (royaltyAmount_of listing))]
          else [])"
      unfolding cond owner by simp
    from found info opted sent confirmed legs'
    show "\<exists>listing info opt w0 signed w1.
         map_of (listings st) listingId = Some listing \<and>
         accountInformation env w (addr buyer) = Inr info \<and>
         (if \<not> hasOptedIn info (assetId listing)
          then optIn env w buyer (assetId listing) else (Inr [], w)) = (Inr opt, w0) \<and>
         sendRawTransaction env w0 signed = (Inr txId, w1) \<and>
         waitForConfirmation env w1 txId 4 = (Inr (), w') \<and>
         map (\<lambda>s. (txn_type (signed_txn s), txn_from (signed_txn s), txn_to (signed_txn s),
                    txn_amount (signed_txn s))) signed =
           [(pay, addr buyer, seller listing, Number (price listing)),
            (axfer, seller listing, addr buyer, BigInt 1)] @
           (if (\<exists>r. royaltyRecipient listing = Some r \<and> r \<noteq> []) \<and>
               js_gt (royaltyAmount_of listing) (Fin 0)
            then [(pay, addr buyer, the (royaltyRecipient listing),
                   Number (royaltyAmount_of listing))]
            else [])"
      by (intro exI conjI)
  qed
  show ?thesis
    by (rule conjI [OF exact conjI [OF none charged]])
qed

text \<open>
  Bob buys Alice's listing of 5 Algos with a royalty of 5 percent to Carol: the
  royalty is 250000 microAlgos, and the submitted group pays it to Carol in its third
  leg.
\<close>

theorem buyAsset_royalty_charged_witness:
  "royaltyAmount_of (demo_listing (Some ''CAROL'') (Some (Fin 5)) active) = Fin 250000 \<and>
   royaltyAmount_of (demo_listing (Some '''') (Some (Fin 5)) active) = Fin 0 \<and>
   (\<exists>signed.
      sendRawTransaction (demo_client True) 0 signed = (Inr ''TXID'', 1) \<and>
      map (\<lambda>s. (txn_type (signed_txn s), txn_from (signed_txn s), txn_to (signed_txn s),
                 txn_amount (signed_txn s))) signed =
        [(pay, ''BOB'', ''ALICE'', Number (Fin 5000000)),
         (axfer, ''ALICE'', ''BOB'', BigInt 1),
         (pay, ''BOB'', ''CAROL'', Number (Fin 250000))])"
proof -
  let ?l = "demo_listing (Some ''CAROL'') (Some (Fin 5)) active"
  let ?st = "demo_registry (Some ''CAROL'') (Some (Fin 5)) active"
  note inst = buyAsset_royalty_charged [of "demo_client True" ?st 0 bob "''listing_42_1000''"
      alice]
  have fields: "price ?l = Fin (of_int 5000000) \<and>
      royaltyPercentage ?l = Some (Fin (of_int 5)) \<and>
      royaltyRecipient ?l = Some ''CAROL'' \<and> ''CAROL'' \<noteq> [] \<and>
      (0::int) \<le> 5000000 * 5 \<and> (5000000 * 5 :: int) < 2 ^ 53"
    by (simp add: demo_listing_def)
  from inst [THEN conjunct1, rule_format, where listing = ?l and p = 5000000 and c = 5
             and r = "''CAROL''", OF fields]
  have royalty: "royaltyAmount_of ?l = Fin 250000"
    by simp
  have empty: "royaltyRecipient (demo_listing (Some '''') (Some (Fin 5)) active) = None \<or>
      royaltyRecipient (demo_listing (Some '''') (Some (Fin 5)) active) = Some [] \<or>
      royaltyPercentage (demo_listing (Some '''') (Some (Fin 5)) active) = None \<or>
      royaltyPercentage (demo_listing (Some '''') (Some (Fin 5)) active) = Some (Fin 0) \<or>
      royaltyPercentage (demo_listing (Some '''') (Some (Fin 5)) active) = Some NaN"
    by (simp add: demo_listing_def)
  from inst [THEN conjunct2, THEN conjunct1, rule_format,
             where listing = "demo_listing (Some '''') (Some (Fin 5)) active", OF empty]
  have royalty0: "royaltyAmount_of (demo_listing (Some '''') (Some (Fin 5)) active) = Fin 0" .
  have run: "buyAsset (demo_client True) ?st 0 bob ''listing_42_1000'' alice =
               (Inr ''TXID'', demo_registry (Some ''CAROL'') (Some (Fin 5)) sold, 1)"
    by (rule demo_bought(2))
  from inst [THEN conjunct2, THEN conjunct2, rule_format, OF run]
  obtain listing info opt w0 signed w1 where
    found: "map_of (listings ?st) ''listing_42_1000'' = Some listing" and
    info: "accountInformation (demo_client True) 0 (addr bob) = Inr info" and
    opted: "(if \<not> hasOptedIn info (assetId listing)
             then optIn (demo_client True) 0 bob (assetId listing) else (Inr [], 0)) =
            (Inr opt, w0)" and
    sent: "sendRawTransaction (demo_client True) w0 signed = (Inr ''TXID'', w1)" and
    legs: "map (\<lambda>s. (txn_type (signed_txn s), txn_from (signed_txn s),
                      txn_to (signed_txn s), txn_amount (signed_txn s))) signed =
           [(pay, addr bob, seller listing, Number (price listing)),
            (axfer, seller listing, addr bob, BigInt 1)] @
           (if (\<exists>r. royaltyRecipient listing = Some r \<and> r \<noteq> []) \<and>
               js_gt (royaltyAmount_of listing) (Fin 0)
            then [(pay, addr bob, the (royaltyRecipient listing),
                   Number (royaltyAmount_of listing))]
            else [])"
    by (elim exE conjE)
  from found have listing: "listing = ?l"
    by (simp add: demo_registry_def)
  from info have info': "info = \<lparr>info_amount = Fin 10000000,
      info_assets = Some [\<lparr>asset_id = 42, holding_amount = Fin 0\<rparr>]\<rparr>"
    by (simp add: demo_client_def demo_account_def bob_def)
  from opted have w0: "w0 = 0"
    unfolding listing info' by (simp add: hasOptedIn_def demo_listing_def)
  from sent have w1: "w1 = 1"
    unfolding w0 by (simp add: demo_client_def)
  have sent': "sendRawTransaction (demo_client True) 0 signed = (Inr ''TXID'', 1)"
    using sent unfolding w0 w1 .
  have legs': "map (\<lambda>s. (txn_type (signed_txn s), txn_from (signed_txn s),
                      txn_to (signed_txn s), txn_amount (signed_txn s))) signed =
        [(pay, ''BOB'', ''ALICE'', Number (Fin 5000000)),
         (axfer, ''ALICE'', ''BOB'', BigInt 1),
         (pay, ''BOB'', ''CAROL'', Number (Fin 250000))]"
    using legs unfolding listing royalty by (simp add: demo_listing_def bob_def)
  have submitted: "\<exists>signed.
      sendRawTransaction (demo_client True) 0 signed = (Inr ''TXID'', 1) \<and>
      map (\<lambda>s. (txn_type (signed_txn s), txn_from (signed_txn s), txn_to (signed_txn s),
                 txn_amount (signed_txn s))) signed =
        [(pay, ''BOB'', ''ALICE'', Number (Fin 5000000)),
         (axfer, ''ALICE'', ''BOB'', BigInt 1),
         (pay, ''BOB'', ''CAROL'', Number (Fin 250000))]"
    by (rule exI [of _ signed]) (rule conjI [OF sent' legs'])
  show ?thesis
    by (rule conjI [OF royalty conjI [OF royalty0 submitted]])
qed


subsection \<open>The price guard of listAsset\<close>

text \<open>
  What the guard \<open>price <= 0\<close> enforces: a price of 0 or less is refused with
  \<open>'Price must be positive'\<close> and the registry is returned as it was; a price that
  passes the guard is positive or is \<open>NaN\<close>, and a successful call stores it.
\<close>

lemma listAsset_nonpositive_price_rejected:
  assumes "js_le p (Fin 0)"
  shows "listAsset env st w now now' seller_acct asset p rr rp = (Inl PriceMustBePositive, st)"
    and "kind PriceMustBePositive = InvalidArgument"
  using assms by (simp_all add: listAsset_def)

lemma price_guard_passed: "\<not> js_le p (Fin 0) \<longleftrightarrow> p = NaN \<or> js_gt p (Fin 0)"
  by (cases p) auto

lemma listAsset_stored_price:
  assumes "listAsset env st w now now' seller_acct asset p rr rp = (Inr lid, st')"
  shows "p = NaN \<or> js_gt p (Fin 0)"
    and "\<exists>l. map_of (listings st') lid = Some l \<and> price l = p"
proof -
  from assms have "\<not> js_le p (Fin 0)"
    by (auto simp: listAsset_def Let_def split: if_splits sum.splits)
  then show "p = NaN \<or> js_gt p (Fin 0)"
    by (simp only: price_guard_passed)
  from assms show "\<exists>l. map_of (listings st') lid = Some l \<and> price l = p"
    by (auto simp: listAsset_def Let_def update_conv' split: if_splits sum.splits)
qed

text \<open>
  Claim C9 fails at the price \<open>NaN\<close>. The guard \<open>price <= 0\<close> is false for \<open>NaN\<close>,
  so Alice's call with the price \<open>NaN\<close> succeeds and stores an active listing whose
  price is not greater than 0: the query returns it, and its total cost is \<open>NaN\<close>.
\<close>

theorem listAsset_NaN_price_stored:
  "\<not> js_le NaN (Fin 0) \<and>
   listAsset (demo_client True) new_marketplace 0 1000 1000 alice 42 NaN None None =
     (Inr ''listing_42_1000'', demo_registry_at NaN None None active) \<and>
   getListing (demo_registry_at NaN None None active) ''listing_42_1000'' =
     Some (demo_listing_at NaN None None active) \<and>
   getActiveListings (demo_registry_at NaN None None active) =
     [demo_listing_at NaN None None active] \<and>
   price (demo_listing_at NaN None None active) = NaN \<and>
   \<not> js_gt (price (demo_listing_at NaN None None active)) (Fin 0) \<and>
   calculateTotalCost (demo_registry_at NaN None None active) ''listing_42_1000'' = Inr NaN"
proof -
  have guard: "\<not> js_le NaN (Fin 0)"
    by simp
  have listed: "listAsset (demo_client True) new_marketplace 0 1000 1000 alice 42 NaN None None =
     (Inr ''listing_42_1000'', demo_registry_at NaN None None active)"
    by (simp add: model_defs demo_defs listingId_of_def show_int_def digits.simps Let_def)
  have found: "getListing (demo_registry_at NaN None None active) ''listing_42_1000'' =
     Some (demo_listing_at NaN None None active)"
    by (simp add: getListing_def demo_registry_at_def)
  have shown: "getActiveListings (demo_registry_at NaN None None active) =
     [demo_listing_at NaN None None active]"
    by (simp add: getActiveListings_def demo_registry_at_def demo_listing_at_def
                  demo_listing_def)
  have stored: "price (demo_listing_at NaN None None active) = NaN"
    by (simp add: demo_listing_at_def)
  have not_positive: "\<not> js_gt (price (demo_listing_at NaN None None active)) (Fin 0)"
    unfolding stored by simp
  have cost: "calculateTotalCost (demo_registry_at NaN None None active) ''listing_42_1000'' =
     Inr NaN"
    by (simp add: model_defs demo_defs two_fees)
  show ?thesis
    by (rule conjI [OF guard conjI [OF listed conjI [OF found conjI [OF shown
          conjI [OF stored conjI [OF not_positive cost]]]]]])
qed

subsection \<open>The empty group\<close>

text \<open>
  Claim C10. \<open>executeAtomicGroup\<close> on an empty list of transactions fails with
  \<open>'No transactions provided'\<close> (rethrown by the \<open>catch\<close> under the prefix of the
  method), for every list of signers, the empty one included. The ledger state is
  returned as it was, for every ledger client: nothing was grouped, signed or
  submitted.
\<close>

theorem executeAtomicGroup_empty:
  "executeAtomicGroup env w [] signers =
     (Inl (Failed ''Atomic group execution failed'' NoTransactionsProvided), w) \<and>
   message toStr (Failed ''Atomic group execution failed'' NoTransactionsProvided) =
     ''Atomic group execution failed: No transactions provided''"
  by (simp add: executeAtomicGroup_def)

theorem executeAtomicGroup_empty_witness:
  "executeAtomicGroup (demo_client True) 0 [] [] =
     (Inl (Failed ''Atomic group execution failed'' NoTransactionsProvided), 0)"
  using executeAtomicGroup_empty [of "demo_client True" 0 "[]"] by simp

end
